theory Spec2Isabelle
  imports Main "HOL-Library.Multiset" "HOL-Library.Code_Target_Numeral"
begin

section \<open>Data model (src/db/schema.ts)\<close>

text \<open>
  The persistent store is a record of tables, each a list of rows in insertion order, with
  one counter per \<open>serial\<close> primary key. An \<open>integer\<close> column holds an \<open>int\<close> that
  satisfies \<open>int4\<close>, a \<open>varchar\<close>/\<open>text\<close> column a \<open>string\<close>, a \<open>decimal(10,2)\<close> column an
  integer number of hundredths that satisfies \<open>numeric_10_2\<close> (so \<open>Number(price) *
  quantity\<close> followed by \<open>toFixed(2)\<close> is exact integer arithmetic here), and a timestamp
  is a number of milliseconds. A statement that would store a computed value outside the
  range of its column, or that compares an \<open>integer\<close> column with a number of the request
  outside that range, is rejected by the store. The \<open>unique\<close> and \<open>check\<close> constraints
  declared in the schema are part of the insert and update statements below; primary and
  foreign keys are predicates on the store, assumed where a statement about it needs them.
\<close>

type_synonym money = int
type_synonym timestamp = nat

text \<open>The values of an \<open>integer\<close> column and of a \<open>decimal(10,2)\<close> column.\<close>

definition int4 :: "int \<Rightarrow> bool" where
  "int4 n \<longleftrightarrow> - 2147483648 \<le> n \<and> n \<le> 2147483647"

definition numeric_10_2 :: "money \<Rightarrow> bool" where
  "numeric_10_2 m \<longleftrightarrow> - 10000000000 < m \<and> m < 10000000000"

datatype order_status = pending | processing | shipped | delivered | cancelled

datatype user_role = customer | admin

record user_row =
  user_id :: int
  user_email :: string
  user_passwordHash :: string
  user_fullName :: "string option"
  user_phone :: "string option"
  user_role :: user_role

record product_row =
  product_id :: int
  product_name :: string
  product_slug :: string
  product_description :: "string option"
  product_price :: money
  product_stockQuantity :: int

record product_image_row =
  image_id :: int
  image_productId :: int
  image_url :: string
  image_isPrimary :: bool

record cart_row =
  cart_id :: int
  cart_userId :: "int option"
  cart_sessionId :: "string option"
  cart_expiresAt :: "timestamp option"
  cart_updatedAt :: timestamp

record cart_item_row =
  item_id :: int
  item_cartId :: int
  item_productId :: int
  item_quantity :: int
  item_updatedAt :: timestamp

record address =
  addr_street :: string
  addr_city :: string
  addr_state :: string
  addr_zip :: string
  addr_country :: string

record order_row =
  order_id :: int
  order_userId :: "int option"
  order_orderNumber :: string
  order_totalAmount :: money
  order_status :: order_status
  order_shippingAddress :: "address option"
  order_createdAt :: timestamp
  order_updatedAt :: timestamp

record order_item_row =
  oitem_id :: int
  oitem_orderId :: int
  oitem_productId :: "int option"
  oitem_quantity :: int
  oitem_priceAtTime :: money
  oitem_productName :: "string option"

record status_row =
  hist_id :: int
  hist_orderId :: int
  hist_status :: order_status
  hist_notes :: "string option"
  hist_createdAt :: timestamp

record db =
  users :: "user_row list"
  products :: "product_row list"
  productImages :: "product_image_row list"
  carts :: "cart_row list"
  cartItems :: "cart_item_row list"
  orders :: "order_row list"
  orderItems :: "order_item_row list"
  orderStatusHistory :: "status_row list"
  carts_seq :: int
  cartItems_seq :: int
  orders_seq :: int
  orderItems_seq :: int
  orderStatusHistory_seq :: int

text \<open>
  What the process reads from outside the store while serving one request. Two of the
  fields stand for what the source leaves to its surroundings. \<open>zone_shift\<close>: the
  helper \<open>getExpirationDate\<close> moves the local calendar date on by seven days and keeps
  the local time of day, so the instant it returns is seven times 24 hours after now plus
  the change, over these seven days, of the difference between UTC and the server's local
  time (\<open>getTimezoneOffset\<close>; the change is 0 unless the local clock is set forward or
  back in between). \<open>scan_rank\<close>: a query without \<open>orderBy\<close> returns its rows in an
  order the store chooses; the rows come in ascending rank of their primary keys, rows of
  equal rank in insertion order.
\<close>

record env =
  now :: timestamp               \<comment> \<open>\<open>Date.now()\<close>, also the store's \<open>now()\<close>\<close>
  today :: string                \<comment> \<open>\<open>toISOString().slice(0, 10)\<close> without the dashes\<close>
  random_suffix :: nat           \<comment> \<open>\<open>Math.floor(1000 + Math.random() * 9000)\<close>\<close>
  uuidv4 :: string               \<comment> \<open>\<open>uuidv4()\<close>\<close>
  zone_shift :: int              \<comment> \<open>change of the local UTC offset within seven days\<close>
  scan_rank :: "int list \<Rightarrow> nat"   \<comment> \<open>the store's row order for the keys of a row\<close>

section \<open>Responses\<close>

text \<open>
  An error response is \<open>{success: false, error: <text>}\<close> with an HTTP status; the
  texts of the source are the constructors of \<open>error_text\<close>, the template string of the
  checkout route keeping its three holes as arguments.
\<close>

datatype error_text =
    ValidationFailed
  | CartNotFound
  | CartIsEmpty
  | InsufficientStockFor string int int
  | InsufficientStock
  | InsufficientStockUpdated
  | ProductNotFound
  | CartItemNotFound
  | InvalidItemId
  | OrderNotFound
  | ForbiddenAccessDenied
  | InvalidEmailOrPassword
  | FailedToAddItem
  | FailedToUpdateItem
  | FailedToRemoveItem
  | InternalServerError

record order_item_view =
  oiv_id :: int
  oiv_productId :: "int option"
  oiv_productName :: "string option"
  oiv_quantity :: int
  oiv_priceAtTime :: money

record status_view =
  sv_id :: int
  sv_status :: order_status
  sv_notes :: "string option"
  sv_createdAt :: timestamp

record order_view =
  ov_id :: int
  ov_orderNumber :: string
  ov_status :: order_status
  ov_totalAmount :: money
  ov_shippingAddress :: "address option"
  ov_items :: "order_item_view list"
  ov_statusHistory :: "status_view list"
  ov_createdAt :: timestamp

record cart_item_view =
  civ_id :: int
  civ_productId :: int
  civ_productName :: string
  civ_productPrice :: money
  civ_image :: "string option"
  civ_quantity :: int
  civ_subtotal :: money

record cart_response =
  cr_id :: "int option"
  cr_items :: "cart_item_view list"
  cr_itemCount :: int
  cr_total :: money

text \<open>
  The \<open>product\<close> of an item of the order detail: the joined product row when the left join
  found one, the snapshot kept in the order line otherwise.
\<close>

datatype product_ref =
    Joined int string string "string option" money
  | Snapshot "int option" string

record order_detail_item =
  odi_id :: int
  odi_product :: product_ref
  odi_quantity :: int
  odi_priceAtTime :: money

record order_detail =
  od_id :: int
  od_orderNumber :: string
  od_status :: order_status
  od_totalAmount :: money
  od_shippingAddress :: "address option"
  od_items :: "order_detail_item list"
  od_statusHistory :: "status_view list"
  od_createdAt :: timestamp
  od_updatedAt :: timestamp

text \<open>The payload handed to \<open>signJWT\<close>; the signature and the encoding are not modelled.\<close>

record token =
  tok_sub :: string
  tok_email :: string
  tok_role :: user_role

record user_view =
  uv_id :: int
  uv_email :: string
  uv_fullName :: "string option"
  uv_phone :: "string option"
  uv_role :: user_role

datatype body =
    CartBody cart_response
  | OrderBody order_view
  | OrderDetailBody order_detail
  | TimelineBody int "status_view list"
  | LoginBody token user_view

datatype response =
    Json nat body
  | JsonError nat error_text

fun http_status :: "response \<Rightarrow> nat" where
  "http_status (Json n b) = n"
| "http_status (JsonError n t) = n"

text \<open>
  Errors the store raises for a statement: a declared constraint is violated, a number
  is outside the range of its column type or a \<open>serial\<close> counter is exhausted, a string
  is longer than its \<open>varchar\<close> column.
\<close>

datatype db_error =
    UniqueViolation string
  | CheckViolation string
  | ForeignKeyViolation string
  | OutOfRange string
  | ValueTooLong string
  | StoreFailure

text \<open>
  \<open>errorHandler\<close> (src/middleware/error-handler.ts) for an error that is neither a
  \<open>ZodError\<close> nor an \<open>HTTPException\<close>: status 500. Its two bodies (\<open>Database error
  occurred\<close> when the driver's message mentions the database, \<open>Internal server error\<close>
  otherwise) differ in wording only and are one constructor here.
\<close>

definition errorHandler :: "db_error \<Rightarrow> response" where
  "errorHandler err = JsonError 500 InternalServerError"

section \<open>Store statements\<close>

text \<open>
  One definition for each statement the routes send to the store. A statement is atomic:
  when the store rejects it, no table has changed (the counter it drew an id from has
  advanced, unless the counter itself is exhausted: a \<open>serial\<close> counter stops at
  2147483647). The routes use no transaction, so the statements of a request that precede
  a rejected one stay applied. A statement tests the range of the values the route has
  computed or taken from the request; a value it copies from a row it has read is in the
  range of its column. The foreign keys of \<open>carts.user_id\<close> and \<open>orders.user_id\<close> are
  tested by the inserts of a cart and of an order, whose user id comes from a token; the
  other statements write no reference to a row the route has not read in the same request.
\<close>

text \<open>
  \<open>db.insert(orders).values({userId, orderNumber, totalAmount, status,
  shippingAddress}).returning()\<close>.
\<close>

definition orders_insert ::
  "int option \<Rightarrow> string \<Rightarrow> money \<Rightarrow> order_status \<Rightarrow> address option \<Rightarrow> timestamp \<Rightarrow> db
    \<Rightarrow> (db_error + order_row) \<times> db" where
  "orders_insert uid num amount st addr t d =
     (let row = \<lparr>order_id = orders_seq d, order_userId = uid, order_orderNumber = num,
                 order_totalAmount = amount, order_status = st, order_shippingAddress = addr,
                 order_createdAt = t, order_updatedAt = t\<rparr>;
          d1 = d\<lparr>orders_seq := orders_seq d + 1\<rparr>
      in if 2147483647 < orders_seq d then (Inl (OutOfRange ''orders_id_seq''), d)
         else if \<not> numeric_10_2 amount then (Inl (OutOfRange ''total_amount''), d1)
         else if (case uid of Some n \<Rightarrow> n \<notin> set (map user_id (users d)) | None \<Rightarrow> False)
         then (Inl (ForeignKeyViolation ''orders_user_id_users_id_fk''), d1)
         else if num \<in> set (map order_orderNumber (orders d))
         then (Inl (UniqueViolation ''orders_order_number_unique''), d1)
         else (Inr row, d1\<lparr>orders := orders d @ [row]\<rparr>))"

text \<open>One row of the \<open>values\<close> array handed to \<open>db.insert(orderItems)\<close>.\<close>

record order_item_values =
  oival_orderId :: int
  oival_productId :: int
  oival_quantity :: int
  oival_priceAtTime :: money
  oival_productName :: string

fun number_from :: "int \<Rightarrow> 'a list \<Rightarrow> (int \<times> 'a) list" where
  "number_from n [] = []"
| "number_from n (x # xs) = (n, x) # number_from (n + 1) xs"

definition orderItems_insert :: "order_item_values list \<Rightarrow> db \<Rightarrow> db_error option \<times> db" where
  "orderItems_insert vals d =
     (let d1 = d\<lparr>orderItems_seq := orderItems_seq d + int (length vals)\<rparr>
      in if 2147483647 < orderItems_seq d + int (length vals) - 1
         then (Some (OutOfRange ''order_items_id_seq''), d)
         else if \<exists>v \<in> set vals. oival_quantity v \<le> 0
         then (Some (CheckViolation ''order_quantity_check''), d1)
         else (None, d1\<lparr>orderItems := orderItems d @
                 map (\<lambda>(n, v). \<lparr>oitem_id = n, oitem_orderId = oival_orderId v,
                                  oitem_productId = Some (oival_productId v),
                                  oitem_quantity = oival_quantity v,
                                  oitem_priceAtTime = oival_priceAtTime v,
                                  oitem_productName = Some (oival_productName v)\<rparr>)
                     (number_from (orderItems_seq d) vals)\<rparr>))"

definition products_set_stock :: "int \<Rightarrow> int \<Rightarrow> db \<Rightarrow> db_error option \<times> db" where
  "products_set_stock pid q d =
     (if q < 0 \<and> (\<exists>p \<in> set (products d). product_id p = pid)
      then (Some (CheckViolation ''stock_quantity_check''), d)
      else (None, d\<lparr>products := map (\<lambda>p. if product_id p = pid
                                           then p\<lparr>product_stockQuantity := q\<rparr> else p)
                                     (products d)\<rparr>))"

definition orderStatusHistory_insert ::
  "int \<Rightarrow> order_status \<Rightarrow> string \<Rightarrow> timestamp \<Rightarrow> db \<Rightarrow> db_error option \<times> db" where
  "orderStatusHistory_insert oid st notes t d =
     (if 2147483647 < orderStatusHistory_seq d
      then (Some (OutOfRange ''order_status_history_id_seq''), d)
      else (None, d\<lparr>orderStatusHistory := orderStatusHistory d @
                     [\<lparr>hist_id = orderStatusHistory_seq d, hist_orderId = oid, hist_status = st,
                       hist_notes = Some notes, hist_createdAt = t\<rparr>],
                   orderStatusHistory_seq := orderStatusHistory_seq d + 1\<rparr>))"

definition cartItems_delete_cart :: "int \<Rightarrow> db \<Rightarrow> db" where
  "cartItems_delete_cart cid d =
     d\<lparr>cartItems := filter (\<lambda>i. item_cartId i \<noteq> cid) (cartItems d)\<rparr>"

text \<open>
  \<open>from(cartItems).innerJoin(products, eq(cartItems.productId, products.id))
  .where(eq(cartItems.cartId, cart.id))\<close>: one pair per line of the cart and product row
  with the line's product id. The query has no \<open>orderBy\<close>: the pairs come in the order
  the store chooses (\<open>scan_rank\<close>).
\<close>

definition cart_join :: "env \<Rightarrow> db \<Rightarrow> int \<Rightarrow> (cart_item_row \<times> product_row) list" where
  "cart_join e d cid =
     sort_key (\<lambda>(i, p). scan_rank e [item_id i, product_id p])
       (concat (map (\<lambda>i. map (\<lambda>p. (i, p))
                          (filter (\<lambda>p. product_id p = item_productId i) (products d)))
                   (filter (\<lambda>i. item_cartId i = cid) (cartItems d))))"

section \<open>Checkout (src/routes/checkout.ts)\<close>

text \<open>The decimal rendering of a number in a template string.\<close>

fun decimal :: "nat \<Rightarrow> string" where
  "decimal n =
     (if n div 10 = 0 then [] else decimal (n div 10)) @ [''0123456789'' ! (n mod 10)]"

definition generateOrderNumber :: "env \<Rightarrow> string" where
  "generateOrderNumber e = ''ORD-'' @ today e @ ''-'' @ decimal (random_suffix e)"

definition checkoutSchema :: "address \<Rightarrow> bool" where
  "checkoutSchema a \<longleftrightarrow>
     addr_street a \<noteq> [] \<and> addr_city a \<noteq> [] \<and> addr_state a \<noteq> [] \<and> addr_zip a \<noteq> []
     \<and> addr_country a \<noteq> []"

definition order_items_of :: "env \<Rightarrow> db \<Rightarrow> int \<Rightarrow> order_item_view list" where
  "order_items_of e d oid =
     map (\<lambda>r. \<lparr>oiv_id = oitem_id r, oiv_productId = oitem_productId r,
                oiv_productName = oitem_productName r, oiv_quantity = oitem_quantity r,
                oiv_priceAtTime = oitem_priceAtTime r\<rparr>)
         (sort_key (\<lambda>r. scan_rank e [oitem_id r])
            (filter (\<lambda>r. oitem_orderId r = oid) (orderItems d)))"

definition status_history_of :: "db \<Rightarrow> int \<Rightarrow> status_view list" where
  "status_history_of d oid =
     map (\<lambda>r. \<lparr>sv_id = hist_id r, sv_status = hist_status r, sv_notes = hist_notes r,
                sv_createdAt = hist_createdAt r\<rparr>)
         (sort_key hist_createdAt (filter (\<lambda>r. hist_orderId r = oid) (orderStatusHistory d)))"

text \<open>The loop \<open>for (const item of cartItemsResult) await db.update(products)...\<close>.\<close>

fun decrement_stock :: "(cart_item_row \<times> product_row) list \<Rightarrow> db \<Rightarrow> db_error option \<times> db" where
  "decrement_stock [] d = (None, d)"
| "decrement_stock ((i, p) # rest) d =
     (case products_set_stock (product_id p) (product_stockQuantity p - item_quantity i) d of
        (Some err, d1) \<Rightarrow> (Some err, d1)
      | (None, d1) \<Rightarrow> decrement_stock rest d1)"

text \<open>
  The handler after \<open>requireAuth\<close> (which yields the caller's user id) and
  \<open>validateBody(checkoutSchema)\<close>. No statement is wrapped in a transaction or a
  \<open>try\<close>: an error of the store leaves the handler and reaches \<open>errorHandler\<close>, and what
  was written before it stays written.
\<close>

definition checkout :: "env \<Rightarrow> int \<Rightarrow> address \<Rightarrow> db \<Rightarrow> response \<times> db" where
  "checkout e userId shippingAddress d =
     (if \<not> checkoutSchema shippingAddress then (JsonError 400 ValidationFailed, d)
      else case find (\<lambda>c. cart_userId c = Some userId) (carts d) of
        None \<Rightarrow> (JsonError 400 CartNotFound, d)
      | Some cart \<Rightarrow>
          (let cartItemsResult = cart_join e d (cart_id cart)
           in if cartItemsResult = [] then (JsonError 400 CartIsEmpty, d)
              else case find (\<lambda>(i, p). product_stockQuantity p < item_quantity i) cartItemsResult of
                Some (i, p) \<Rightarrow>
                  (JsonError 400 (InsufficientStockFor (product_name p)
                                    (product_stockQuantity p) (item_quantity i)), d)
              | None \<Rightarrow>
                  (let totalAmount = sum_list (map (\<lambda>(i, p). product_price p * item_quantity i)
                                                   cartItemsResult);
                       orderNumber = generateOrderNumber e
                   in case orders_insert (Some userId) orderNumber totalAmount pending
                             (Some shippingAddress) (now e) d of
                        (Inl err, d1) \<Rightarrow> (errorHandler err, d1)
                      | (Inr order, d1) \<Rightarrow>
                          (let orderItemsData =
                                 map (\<lambda>(i, p). \<lparr>oival_orderId = order_id order,
                                                 oival_productId = product_id p,
                                                 oival_quantity = item_quantity i,
                                                 oival_priceAtTime = product_price p,
                                                 oival_productName = product_name p\<rparr>)
                                     cartItemsResult
                           in case orderItems_insert orderItemsData d1 of
                                (Some err, d2) \<Rightarrow> (errorHandler err, d2)
                              | (None, d2) \<Rightarrow>
                                  (case decrement_stock cartItemsResult d2 of
                                     (Some err, d3) \<Rightarrow> (errorHandler err, d3)
                                   | (None, d3) \<Rightarrow>
                                       (case orderStatusHistory_insert (order_id order) pending
                                               ''Order created'' (now e) d3 of
                                          (Some err, d4) \<Rightarrow> (errorHandler err, d4)
                                        | (None, d4) \<Rightarrow>
                                            (let d5 = cartItems_delete_cart (cart_id cart) d4
                                             in (Json 201 (OrderBody
                                                   \<lparr>ov_id = order_id order,
                                                    ov_orderNumber = order_orderNumber order,
                                                    ov_status = order_status order,
                                                    ov_totalAmount = order_totalAmount order,
                                                    ov_shippingAddress = Some shippingAddress,
                                                    ov_items = order_items_of e d5 (order_id order),
                                                    ov_statusHistory =
                                                      status_history_of d5 (order_id order),
                                                    ov_createdAt = order_createdAt order\<rparr>),
                                                 d5))))))))"

section \<open>Order history (src/routes/orders.ts)\<close>

definition order_detail_items :: "db \<Rightarrow> int \<Rightarrow> order_detail_item list" where
  "order_detail_items d oid =
     concat (map (\<lambda>r.
        (case (case oitem_productId r of
                 None \<Rightarrow> []
               | Some pid \<Rightarrow> filter (\<lambda>p. product_id p = pid) (products d)) of
           [] \<Rightarrow> [\<lparr>odi_id = oitem_id r,
                    odi_product = Snapshot (oitem_productId r)
                       (case oitem_productName r of
                          None \<Rightarrow> ''Unknown Product''
                        | Some n \<Rightarrow> if n = [] then ''Unknown Product'' else n),
                    odi_quantity = oitem_quantity r, odi_priceAtTime = oitem_priceAtTime r\<rparr>]
         | ps \<Rightarrow> map (\<lambda>p. \<lparr>odi_id = oitem_id r,
                    odi_product =
                      (if product_id p \<noteq> 0
                       then Joined (product_id p) (product_name p) (product_slug p)
                              (product_description p) (product_price p)
                       else Snapshot (oitem_productId r)
                              (case oitem_productName r of
                                 None \<Rightarrow> ''Unknown Product''
                               | Some n \<Rightarrow> if n = [] then ''Unknown Product'' else n)),
                    odi_quantity = oitem_quantity r, odi_priceAtTime = oitem_priceAtTime r\<rparr>) ps))
       (filter (\<lambda>r. oitem_orderId r = oid) (orderItems d)))"

text \<open>
  \<open>app.get('/:id')\<close> after \<open>requireAuth\<close>; \<open>orderIdParamsSchema\<close> is the test
  \<open>1 \<le> id\<close>. The routes of this file only read the store; they are modelled for
  order ids in the range of the \<open>integer\<close> column, the ids an order can have, and
  list the items of an order in insertion order.
\<close>

definition get_order :: "int \<Rightarrow> int \<Rightarrow> db \<Rightarrow> response" where
  "get_order userId oid d =
     (if oid < 1 then JsonError 400 ValidationFailed
      else case find (\<lambda>r. order_id r = oid) (orders d) of
        None \<Rightarrow> JsonError 404 OrderNotFound
      | Some order \<Rightarrow>
          if order_userId order \<noteq> Some userId then JsonError 403 ForbiddenAccessDenied
          else Json 200 (OrderDetailBody
                 \<lparr>od_id = order_id order, od_orderNumber = order_orderNumber order,
                  od_status = order_status order, od_totalAmount = order_totalAmount order,
                  od_shippingAddress = order_shippingAddress order,
                  od_items = order_detail_items d oid,
                  od_statusHistory = status_history_of d oid,
                  od_createdAt = order_createdAt order,
                  od_updatedAt = order_updatedAt order\<rparr>))"

text \<open>\<open>app.get('/:id/status')\<close>.\<close>

definition get_order_status :: "int \<Rightarrow> int \<Rightarrow> db \<Rightarrow> response" where
  "get_order_status userId oid d =
     (if oid < 1 then JsonError 400 ValidationFailed
      else case find (\<lambda>r. order_id r = oid) (orders d) of
        None \<Rightarrow> JsonError 404 OrderNotFound
      | Some order \<Rightarrow>
          if order_userId order \<noteq> Some userId then JsonError 403 ForbiddenAccessDenied
          else Json 200 (TimelineBody oid (status_history_of d oid)))"

section \<open>Cart resolution (src/routes/cart.ts)\<close>

text \<open>
  What a cart route reads from the request: the user id that \<open>getUserIdFromToken\<close>
  extracts from a verified bearer token (\<open>None\<close> for \<open>null\<close>), and the \<open>session_id\<close>
  cookie.
\<close>

record caller =
  auth_user :: "int option"
  session_cookie :: "string option"

text \<open>JavaScript truthiness of a \<open>number | null\<close> and of a \<open>string | null | undefined\<close>.\<close>

definition truthy_number :: "int option \<Rightarrow> bool" where
  "truthy_number n \<longleftrightarrow> n \<noteq> None \<and> n \<noteq> Some 0"

definition truthy_string :: "string option \<Rightarrow> bool" where
  "truthy_string s \<longleftrightarrow> s \<noteq> None \<and> s \<noteq> Some []"

text \<open>
  \<open>const date = new Date(); date.setDate(date.getDate() + 7)\<close>: seven calendar days
  later at the same local time.
\<close>

definition getExpirationDate :: "env \<Rightarrow> timestamp" where
  "getExpirationDate e = nat (int (now e) + 7 * 24 * 60 * 60 * 1000 + zone_shift e)"

text \<open>The cookie that \<open>getOrCreateSessionId\<close> sets on the response is not part of the model.\<close>

definition getOrCreateSessionId :: "env \<Rightarrow> caller \<Rightarrow> string" where
  "getOrCreateSessionId e c =
     (case session_cookie c of
        Some sessionId \<Rightarrow> if sessionId \<noteq> [] then sessionId else uuidv4 e
      | None \<Rightarrow> uuidv4 e)"

definition session_of :: "env \<Rightarrow> caller \<Rightarrow> string option" where
  "session_of e c =
     (if truthy_number (auth_user c) then None else Some (getOrCreateSessionId e c))"

text \<open>
  The lookup shared by \<open>getOrCreateCart\<close>, \<open>GET /cart\<close> and \<open>DELETE /cart\<close>:
  \<open>[cart] = await db.select()...\<close> keeps the first row of the result.
\<close>

definition find_cart :: "int option \<Rightarrow> string option \<Rightarrow> db \<Rightarrow> cart_row option" where
  "find_cart userId sessionId d =
     (if truthy_number userId then find (\<lambda>c. cart_userId c = userId) (carts d)
      else if truthy_string sessionId then find (\<lambda>c. cart_sessionId c = sessionId) (carts d)
      else None)"

definition carts_touch :: "int \<Rightarrow> timestamp \<Rightarrow> timestamp \<Rightarrow> db \<Rightarrow> db" where
  "carts_touch cid expiresAt t d =
     d\<lparr>carts := map (\<lambda>c. if cart_id c = cid
                            then c\<lparr>cart_expiresAt := Some expiresAt, cart_updatedAt := t\<rparr>
                            else c) (carts d)\<rparr>"

text \<open>
  \<open>db.insert(carts).values({userId, sessionId, expiresAt}).returning()\<close>. The store
  rejects a session id of more than 255 characters (\<open>varchar(255)\<close>) and a user id that
  is not the id of a user row (foreign key \<open>carts.user_id\<close>).
\<close>

definition carts_insert ::
  "int option \<Rightarrow> string option \<Rightarrow> timestamp \<Rightarrow> timestamp \<Rightarrow> db
    \<Rightarrow> (db_error + cart_row) \<times> db" where
  "carts_insert userId sessionId expiresAt t d =
     (let row = \<lparr>cart_id = carts_seq d, cart_userId = userId, cart_sessionId = sessionId,
                 cart_expiresAt = Some expiresAt, cart_updatedAt = t\<rparr>;
          d1 = d\<lparr>carts_seq := carts_seq d + 1\<rparr>
      in if 2147483647 < carts_seq d then (Inl (OutOfRange ''carts_id_seq''), d)
         else if (case sessionId of Some s \<Rightarrow> 255 < length s | None \<Rightarrow> False)
         then (Inl (ValueTooLong ''session_id''), d1)
         else if (case userId of Some n \<Rightarrow> n \<notin> set (map user_id (users d)) | None \<Rightarrow> False)
         then (Inl (ForeignKeyViolation ''carts_user_id_users_id_fk''), d1)
         else (Inr row, d1\<lparr>carts := carts d @ [row]\<rparr>))"

text \<open>Deleting a cart row deletes its lines (\<open>onDelete: 'cascade'\<close>).\<close>

definition carts_delete :: "int \<Rightarrow> db \<Rightarrow> db" where
  "carts_delete cid d =
     d\<lparr>carts := filter (\<lambda>c. cart_id c \<noteq> cid) (carts d),
       cartItems := filter (\<lambda>i. item_cartId i \<noteq> cid) (cartItems d)\<rparr>"

text \<open>
  \<open>getOrCreateCart\<close> returns \<open>{id, userId}\<close> of the cart; an error of its insert leaves
  the helper and is caught by the \<open>try\<close> of the route that called it.
\<close>

definition getOrCreateCart ::
  "env \<Rightarrow> caller \<Rightarrow> db \<Rightarrow> (db_error + (int \<times> int option)) \<times> db" where
  "getOrCreateCart e c d =
     (let userId = auth_user c;
          sessionId = session_of e c;
          expiresAt = getExpirationDate e
      in case find_cart userId sessionId d of
           Some cart \<Rightarrow>
             (Inr (cart_id cart, cart_userId cart),
              carts_touch (cart_id cart) expiresAt (now e) d)
         | None \<Rightarrow>
             (case carts_insert userId sessionId expiresAt (now e) d of
                (Inl err, d1) \<Rightarrow> (Inl err, d1)
              | (Inr newCart, d1) \<Rightarrow> (Inr (cart_id newCart, cart_userId newCart), d1)))"

definition left_join_images :: "db \<Rightarrow> product_row \<Rightarrow> string option list" where
  "left_join_images d p =
     (case filter (\<lambda>m. image_productId m = product_id p \<and> image_isPrimary m) (productImages d) of
        [] \<Rightarrow> [None]
      | ms \<Rightarrow> map (\<lambda>m. Some (image_url m)) ms)"

definition buildCartResponse :: "env \<Rightarrow> int \<Rightarrow> db \<Rightarrow> cart_response" where
  "buildCartResponse e cartId d =
     (let formattedItems =
            concat (map (\<lambda>(i, p).
               map (\<lambda>img. \<lparr>civ_id = item_id i, civ_productId = product_id p,
                           civ_productName = product_name p, civ_productPrice = product_price p,
                           civ_image = (if truthy_string img then img else None),
                           civ_quantity = item_quantity i,
                           civ_subtotal = product_price p * item_quantity i\<rparr>)
                   (left_join_images d p))
              (cart_join e d cartId))
      in \<lparr>cr_id = Some cartId, cr_items = formattedItems,
          cr_itemCount = sum_list (map civ_quantity formattedItems),
          cr_total = sum_list (map civ_subtotal formattedItems)\<rparr>)"

text \<open>The literal \<open>{id: null, items: [], itemCount: 0, total: 0}\<close>.\<close>

definition empty_cart :: cart_response where
  "empty_cart = \<lparr>cr_id = None, cr_items = [], cr_itemCount = 0, cr_total = 0\<rparr>"

section \<open>Cart lines (src/routes/cart.ts)\<close>

definition cartItems_insert :: "int \<Rightarrow> int \<Rightarrow> int \<Rightarrow> timestamp \<Rightarrow> db \<Rightarrow> db_error option \<times> db" where
  "cartItems_insert cid pid q t d =
     (let d1 = d\<lparr>cartItems_seq := cartItems_seq d + 1\<rparr>
      in if \<not> int4 q then (Some (OutOfRange ''quantity''), d)
         else if 2147483647 < cartItems_seq d then (Some (OutOfRange ''cart_items_id_seq''), d)
         else if q \<le> 0 then (Some (CheckViolation ''cart_quantity_check''), d1)
         else if (cid, pid) \<in> set (map (\<lambda>i. (item_cartId i, item_productId i)) (cartItems d))
         then (Some (UniqueViolation ''unique_cart_item''), d1)
         else (None, d1\<lparr>cartItems := cartItems d @
                 [\<lparr>item_id = cartItems_seq d, item_cartId = cid, item_productId = pid,
                   item_quantity = q, item_updatedAt = t\<rparr>]\<rparr>))"

text \<open>
  \<open>db.update(cartItems).set({quantity, ...}).where(eq(cartItems.id, id))\<close>; the route that
  also sets \<open>updatedAt\<close> passes the time.
\<close>

definition cartItems_set_quantity ::
  "int \<Rightarrow> int \<Rightarrow> timestamp option \<Rightarrow> db \<Rightarrow> db_error option \<times> db" where
  "cartItems_set_quantity iid q t d =
     (if \<not> int4 q then (Some (OutOfRange ''quantity''), d)
      else if q \<le> 0 \<and> (\<exists>i \<in> set (cartItems d). item_id i = iid)
      then (Some (CheckViolation ''cart_quantity_check''), d)
      else (None, d\<lparr>cartItems := map (\<lambda>i. if item_id i = iid
                     then (case t of None \<Rightarrow> i\<lparr>item_quantity := q\<rparr>
                           | Some u \<Rightarrow> i\<lparr>item_quantity := q, item_updatedAt := u\<rparr>)
                     else i) (cartItems d)\<rparr>))"

definition cartItems_delete :: "int \<Rightarrow> db \<Rightarrow> db" where
  "cartItems_delete iid d = d\<lparr>cartItems := filter (\<lambda>i. item_id i \<noteq> iid) (cartItems d)\<rparr>"

text \<open>
  \<open>GET /cart\<close>. Each cart route is wrapped in a \<open>try\<close> that answers 500 with a text
  of its own. The statements of this route and of \<open>DELETE /cart\<close> compare columns with
  the caller's identity only (the subject of a verified token, which the login route took
  from a user row, or a session string) and write no computed number, so the store
  rejects none of them.
\<close>

definition get_cart :: "env \<Rightarrow> caller \<Rightarrow> db \<Rightarrow> response \<times> db" where
  "get_cart e c d =
     (case find_cart (auth_user c) (session_of e c) d of
        None \<Rightarrow> (Json 200 (CartBody empty_cart), d)
      | Some cart \<Rightarrow>
          (let d1 = carts_touch (cart_id cart) (getExpirationDate e) (now e) d
           in (Json 200 (CartBody (buildCartResponse e (cart_id cart) d1)), d1)))"

text \<open>
  \<open>POST /cart/items\<close>; \<open>addToCartSchema\<close> is the first test. An error of the store is
  caught by the handler's \<open>try\<close> and answered with status 500; the first statement,
  which looks the product up by the id of the request, is rejected for an id beyond the
  range of the column.
\<close>

definition add_item :: "env \<Rightarrow> caller \<Rightarrow> int \<Rightarrow> int \<Rightarrow> db \<Rightarrow> response \<times> db" where
  "add_item e c productId quantity d =
     (if productId \<le> 0 \<or> quantity < 1 then (JsonError 400 ValidationFailed, d)
      else if \<not> int4 productId then (JsonError 500 FailedToAddItem, d)
      else case find (\<lambda>p. product_id p = productId) (products d) of
        None \<Rightarrow> (JsonError 404 ProductNotFound, d)
      | Some product \<Rightarrow>
          if product_stockQuantity product < quantity then (JsonError 400 InsufficientStock, d)
          else case getOrCreateCart e c d of
            (Inl err, d1) \<Rightarrow> (JsonError 500 FailedToAddItem, d1)
          | (Inr cart, d1) \<Rightarrow>
              (case find (\<lambda>i. item_cartId i = fst cart \<and> item_productId i = productId)
                         (cartItems d1) of
                 Some existingItem \<Rightarrow>
                   (let newQuantity = item_quantity existingItem + quantity
                    in if newQuantity > product_stockQuantity product
                       then (JsonError 400 InsufficientStockUpdated, d1)
                       else case cartItems_set_quantity (item_id existingItem) newQuantity
                                   (Some (now e)) d1 of
                              (Some err, d2) \<Rightarrow> (JsonError 500 FailedToAddItem, d2)
                            | (None, d2) \<Rightarrow>
                                (Json 200 (CartBody (buildCartResponse e (fst cart) d2)), d2))
               | None \<Rightarrow>
                   (case cartItems_insert (fst cart) productId quantity (now e) d1 of
                      (Some err, d2) \<Rightarrow> (JsonError 500 FailedToAddItem, d2)
                    | (None, d2) \<Rightarrow>
                        (Json 200 (CartBody (buildCartResponse e (fst cart) d2)), d2))))"

text \<open>
  \<open>PUT /cart/items/:id\<close>; \<open>itemId\<close> is the result of \<open>parseInt\<close> on the path
  parameter, \<open>None\<close> for \<open>NaN\<close>. The lookup of the line compares \<open>cart_items.id\<close>
  with that number: for a number beyond the range of the column the store rejects the
  statement, after \<open>getOrCreateCart\<close> has run, and the \<open>try\<close> of the route answers 500.
\<close>

definition update_item :: "env \<Rightarrow> caller \<Rightarrow> int option \<Rightarrow> int \<Rightarrow> db \<Rightarrow> response \<times> db" where
  "update_item e c itemId quantity d =
     (if quantity < 1 then (JsonError 400 ValidationFailed, d)
      else case itemId of
        None \<Rightarrow> (JsonError 400 InvalidItemId, d)
      | Some iid \<Rightarrow>
          (case getOrCreateCart e c d of
             (Inl err, d1) \<Rightarrow> (JsonError 500 FailedToUpdateItem, d1)
           | (Inr cart, d1) \<Rightarrow>
               if \<not> int4 iid then (JsonError 500 FailedToUpdateItem, d1)
               else
               (case find (\<lambda>i. item_id i = iid \<and> item_cartId i = fst cart) (cartItems d1) of
                  None \<Rightarrow> (JsonError 404 CartItemNotFound, d1)
                | Some cartItem \<Rightarrow>
                    (case find (\<lambda>p. product_id p = item_productId cartItem) (products d1) of
                       None \<Rightarrow> (JsonError 404 ProductNotFound, d1)
                     | Some product \<Rightarrow>
                         (if quantity > product_stockQuantity product
                          then (JsonError 400 InsufficientStock, d1)
                          else (case cartItems_set_quantity iid quantity (Some (now e)) d1 of
                                  (Some err, d2) \<Rightarrow> (JsonError 500 FailedToUpdateItem, d2)
                                | (None, d2) \<Rightarrow>
                                    (Json 200 (CartBody (buildCartResponse e (fst cart) d2)),
                                     d2)))))))"

text \<open>\<open>DELETE /cart/items/:id\<close>, with the same lookup of the line.\<close>

definition remove_item :: "env \<Rightarrow> caller \<Rightarrow> int option \<Rightarrow> db \<Rightarrow> response \<times> db" where
  "remove_item e c itemId d =
     (case itemId of
        None \<Rightarrow> (JsonError 400 InvalidItemId, d)
      | Some iid \<Rightarrow>
          (case getOrCreateCart e c d of
             (Inl err, d1) \<Rightarrow> (JsonError 500 FailedToRemoveItem, d1)
           | (Inr cart, d1) \<Rightarrow>
               if \<not> int4 iid then (JsonError 500 FailedToRemoveItem, d1)
               else
               (case find (\<lambda>i. item_id i = iid \<and> item_cartId i = fst cart) (cartItems d1) of
                  None \<Rightarrow> (JsonError 404 CartItemNotFound, d1)
                | Some cartItem \<Rightarrow>
                    (let d2 = cartItems_delete iid d1
                     in (Json 200 (CartBody (buildCartResponse e (fst cart) d2)), d2)))))"

text \<open>\<open>DELETE /cart\<close>.\<close>

definition clear_cart :: "env \<Rightarrow> caller \<Rightarrow> db \<Rightarrow> response \<times> db" where
  "clear_cart e c d =
     (case find_cart (auth_user c) (session_of e c) d of
        Some cart \<Rightarrow>
          (Json 200 (CartBody empty_cart),
           carts_delete (cart_id cart) (cartItems_delete_cart (cart_id cart) d))
      | None \<Rightarrow> (Json 200 (CartBody empty_cart), d))"

section \<open>Login and cart merge (src/routes/auth.ts)\<close>

record login_request =
  login_email :: string
  login_password :: string
  header_session :: "string option"      \<comment> \<open>\<open>c.req.header('x-session-id')\<close>\<close>
  query_session :: "string option"       \<comment> \<open>\<open>c.req.query('session_id')\<close>\<close>

definition request_sessionId :: "login_request \<Rightarrow> string option" where
  "request_sessionId r = (if truthy_string (header_session r) then header_session r else query_session r)"

text \<open>\<open>String(n)\<close> for an integer.\<close>

definition js_String :: "int \<Rightarrow> string" where
  "js_String i = (if 0 \<le> i then decimal (nat i) else CHR ''-'' # decimal (nat (- i)))"

text \<open>
  The login route has no \<open>try\<close> around its statements, so that an error of the store
  during the merge is an error of the request. To say what the route does then, every
  statement of this route may fail: \<open>fault = Some k\<close> makes the statement reached after
  \<open>k\<close> others raise \<open>StoreFailure\<close>, \<open>fault = None\<close> is a store that fails on
  no statement of its own accord (it still rejects a statement that violates a constraint
  or the range of a column).
\<close>

definition fails :: "nat option \<Rightarrow> bool" where
  "fails fault \<longleftrightarrow> fault = Some 0"

definition tick :: "nat option \<Rightarrow> nat option" where
  "tick fault = map_option (\<lambda>k. k - 1) fault"

text \<open>The loop \<open>for (const item of guestCartItems)\<close>: two statements for each line.\<close>

fun merge_items ::
  "nat option \<Rightarrow> env \<Rightarrow> int \<Rightarrow> cart_item_row list \<Rightarrow> db \<Rightarrow> db_error option \<times> nat option \<times> db" where
  "merge_items fault e userCartId [] d = (None, fault, d)"
| "merge_items fault e userCartId (item # rest) d =
     (if fails fault then (Some StoreFailure, fault, d)
      else if fails (tick fault) then (Some StoreFailure, tick fault, d)
      else case find (\<lambda>i. item_cartId i = userCartId \<and> item_productId i = item_productId item)
                     (cartItems d) of
        Some existingItem \<Rightarrow>
          (case cartItems_set_quantity (item_id existingItem)
                  (item_quantity existingItem + item_quantity item) None d of
             (Some err, d1) \<Rightarrow> (Some err, tick fault, d1)
           | (None, d1) \<Rightarrow> merge_items (tick (tick fault)) e userCartId rest d1)
      | None \<Rightarrow>
          (case cartItems_insert userCartId (item_productId item) (item_quantity item) (now e) d of
             (Some err, d1) \<Rightarrow> (Some err, tick fault, d1)
           | (None, d1) \<Rightarrow> merge_items (tick (tick fault)) e userCartId rest d1))"

text \<open>The merge loop followed by the two deletes of the guest cart.\<close>

definition merge_into ::
  "nat option \<Rightarrow> env \<Rightarrow> int \<Rightarrow> int \<Rightarrow> cart_item_row list \<Rightarrow> db \<Rightarrow> db_error option \<times> db" where
  "merge_into fault e userCartId guestCartId guestCartItems d =
     (case merge_items fault e userCartId guestCartItems d of
        (Some err, f1, d1) \<Rightarrow> (Some err, d1)
      | (None, f1, d1) \<Rightarrow>
          if fails f1 then (Some StoreFailure, d1)
          else (let d2 = cartItems_delete_cart guestCartId d1
                in if fails (tick f1) then (Some StoreFailure, d2)
                   else (None, carts_delete guestCartId d2)))"

text \<open>
  The block \<open>if (sessionId) { ... }\<close> of the login route. The select of the guest's
  lines has no \<open>orderBy\<close>; the new cart expires \<open>Date.now() + 7 * 24 * 60 * 60 * 1000\<close>.
\<close>

definition merge_guest_cart ::
  "nat option \<Rightarrow> env \<Rightarrow> string option \<Rightarrow> user_row \<Rightarrow> db \<Rightarrow> db_error option \<times> db" where
  "merge_guest_cart fault e sessionId user d =
     (if \<not> truthy_string sessionId then (None, d)
      else if fails fault then (Some StoreFailure, d)
      else case find (\<lambda>c. cart_sessionId c = sessionId \<and> cart_userId c = None) (carts d) of
        None \<Rightarrow> (None, d)
      | Some guestCart \<Rightarrow>
          if fails (tick fault) then (Some StoreFailure, d)
          else (let guestCartItems =
                      sort_key (\<lambda>i. scan_rank e [item_id i])
                        (filter (\<lambda>i. item_cartId i = cart_id guestCart) (cartItems d))
                in if guestCartItems = [] then (None, d)
                   else if fails (tick (tick fault)) then (Some StoreFailure, d)
                   else case find (\<lambda>c. cart_userId c = Some (user_id user)) (carts d) of
                     Some userCart \<Rightarrow>
                       merge_into (tick (tick (tick fault))) e (cart_id userCart)
                         (cart_id guestCart) guestCartItems d
                   | None \<Rightarrow>
                       if fails (tick (tick (tick fault))) then (Some StoreFailure, d)
                       else (case carts_insert (Some (user_id user)) None
                                    (now e + 7 * 24 * 60 * 60 * 1000) (now e) d of
                               (Inl err, d1) \<Rightarrow> (Some err, d1)
                             | (Inr newCart, d1) \<Rightarrow>
                                 merge_into (tick (tick (tick (tick fault)))) e (cart_id newCart)
                                   (cart_id guestCart) guestCartItems d1)))"

text \<open>
  \<open>auth.post('/login')\<close> after \<open>zValidator('json', loginSchema)\<close>. \<open>comparePassword\<close>
  (src/utils/password.ts) is a parameter.
\<close>

definition login ::
  "(string \<Rightarrow> string \<Rightarrow> bool) \<Rightarrow> nat option \<Rightarrow> env \<Rightarrow> login_request \<Rightarrow> db \<Rightarrow> response \<times> db" where
  "login comparePassword fault e r d =
     (if fails fault then (errorHandler StoreFailure, d)
      else case find (\<lambda>u. user_email u = login_email r) (users d) of
        None \<Rightarrow> (JsonError 401 InvalidEmailOrPassword, d)
      | Some user \<Rightarrow>
          if \<not> comparePassword (login_password r) (user_passwordHash user)
          then (JsonError 401 InvalidEmailOrPassword, d)
          else (case merge_guest_cart (tick fault) e (request_sessionId r) user d of
                  (Some err, d1) \<Rightarrow> (errorHandler err, d1)
                | (None, d1) \<Rightarrow>
                    (Json 200 (LoginBody
                       \<lparr>tok_sub = js_String (user_id user), tok_email = user_email user,
                        tok_role = user_role user\<rparr>
                       \<lparr>uv_id = user_id user, uv_email = user_email user,
                        uv_fullName = user_fullName user, uv_phone = user_phone user,
                        uv_role = user_role user\<rparr>), d1)))"

text \<open>The number of statements the merge block sends to the store when none fails.\<close>

definition merge_statements :: "string option \<Rightarrow> user_row \<Rightarrow> db \<Rightarrow> nat" where
  "merge_statements sessionId user d =
     (if \<not> truthy_string sessionId then 0
      else case find (\<lambda>c. cart_sessionId c = sessionId \<and> cart_userId c = None) (carts d) of
        None \<Rightarrow> 1
      | Some guestCart \<Rightarrow>
          (let n = length (filter (\<lambda>i. item_cartId i = cart_id guestCart) (cartItems d))
           in if n = 0 then 2
              else 3 + (if find (\<lambda>c. cart_userId c = Some (user_id user)) (carts d) = None
                        then 1 else 0) + 2 * n + 2))"

section \<open>The operations that write to the store\<close>

datatype request =
    GetCart caller
  | AddItem caller int int
  | UpdateItem caller "int option" int
  | RemoveItem caller "int option"
  | ClearCart caller
  | Login "nat option" login_request
  | Checkout int address

fun handle :: "(string \<Rightarrow> string \<Rightarrow> bool) \<Rightarrow> env \<Rightarrow> request \<Rightarrow> db \<Rightarrow> response \<times> db" where
  "handle cmp e (GetCart c) d = get_cart e c d"
| "handle cmp e (AddItem c productId quantity) d = add_item e c productId quantity d"
| "handle cmp e (UpdateItem c itemId quantity) d = update_item e c itemId quantity d"
| "handle cmp e (RemoveItem c itemId) d = remove_item e c itemId d"
| "handle cmp e (ClearCart c) d = clear_cart e c d"
| "handle cmp e (Login fault r) d = login cmp fault e r d"
| "handle cmp e (Checkout userId shippingAddress) d = checkout e userId shippingAddress d"

section \<open>Constraints of the schema as predicates on the store\<close>

text \<open>Primary key of \<open>products\<close>.\<close>

definition products_pk :: "db \<Rightarrow> bool" where
  "products_pk d \<longleftrightarrow> distinct (map product_id (products d))"

text \<open>Primary key of \<open>cart_items\<close>.\<close>

definition cartItems_pk :: "db \<Rightarrow> bool" where
  "cartItems_pk d \<longleftrightarrow> distinct (map item_id (cartItems d))"

text \<open>Foreign key \<open>cart_items.product_id\<close>.\<close>

definition cartItems_fk_product :: "db \<Rightarrow> bool" where
  "cartItems_fk_product d \<longleftrightarrow>
     (\<forall>i \<in> set (cartItems d). \<exists>p \<in> set (products d). product_id p = item_productId i)"

text \<open>\<open>unique('unique_cart_item').on(table.cartId, table.productId)\<close>.\<close>

definition cartItems_unique :: "db \<Rightarrow> bool" where
  "cartItems_unique d \<longleftrightarrow>
     distinct (map (\<lambda>i. (item_cartId i, item_productId i)) (cartItems d))"

text \<open>\<open>check('cart_quantity_check', quantity > 0)\<close>.\<close>

definition cartItems_check :: "db \<Rightarrow> bool" where
  "cartItems_check d \<longleftrightarrow> (\<forall>i \<in> set (cartItems d). 0 < item_quantity i)"

text \<open>
  The \<open>serial\<close> counters are ahead of the ids in use, and a line belongs to a cart row
  (foreign key \<open>cart_items.cart_id\<close>).
\<close>

definition carts_serial :: "db \<Rightarrow> bool" where
  "carts_serial d \<longleftrightarrow>
     (\<forall>c \<in> set (carts d). cart_id c < carts_seq d) \<and>
     (\<forall>i \<in> set (cartItems d). \<exists>c \<in> set (carts d). cart_id c = item_cartId i)"

definition cartItems_serial :: "db \<Rightarrow> bool" where
  "cartItems_serial d \<longleftrightarrow> (\<forall>i \<in> set (cartItems d). item_id i < cartItems_seq d)"


text \<open>The lines of a cart.\<close>

definition cart_lines :: "db \<Rightarrow> int \<Rightarrow> cart_item_row list" where
  "cart_lines d cid = filter (\<lambda>i. item_cartId i = cid) (cartItems d)"

text \<open>What the stock loop of checkout makes of a product row.\<close>

definition stock_after :: "(cart_item_row \<times> product_row) list \<Rightarrow> product_row \<Rightarrow> product_row" where
  "stock_after rows p' =
     (case find (\<lambda>(i, p). product_id p = product_id p') rows of
        Some (i, p) \<Rightarrow> p'\<lparr>product_stockQuantity := product_stockQuantity p - item_quantity i\<rparr>
      | None \<Rightarrow> p')"

text \<open>Primary key of \<open>carts\<close>.\<close>

definition carts_pk :: "db \<Rightarrow> bool" where
  "carts_pk d \<longleftrightarrow> distinct (map cart_id (carts d))"

text \<open>The constraints on \<open>cart_items\<close> together.\<close>

definition wf_items :: "db \<Rightarrow> bool" where
  "wf_items d \<longleftrightarrow> cartItems_pk d \<and> cartItems_serial d \<and> cartItems_unique d \<and> cartItems_check d"

text \<open>The lines of a cart for one product, and the quantity they hold.\<close>

definition cart_product_lines :: "db \<Rightarrow> int \<Rightarrow> int \<Rightarrow> cart_item_row list" where
  "cart_product_lines d cid pid =
     filter (\<lambda>i. item_cartId i = cid \<and> item_productId i = pid) (cartItems d)"

definition quantity_in_cart :: "db \<Rightarrow> int \<Rightarrow> int \<Rightarrow> int" where
  "quantity_in_cart d cid pid = sum_list (map item_quantity (cart_product_lines d cid pid))"

text \<open>The id of the cart the login route merges into: the user's cart, or the one it inserts.\<close>

definition user_cart_id :: "db \<Rightarrow> user_row \<Rightarrow> int" where
  "user_cart_id d u =
     (case find (\<lambda>c. cart_userId c = Some (user_id u)) (carts d) of
        Some c \<Rightarrow> cart_id c
      | None \<Rightarrow> carts_seq d)"

text \<open>Two stores that differ at most in the table of cart lines and its counter.\<close>

definition items_only :: "db \<Rightarrow> db \<Rightarrow> bool" where
  "items_only d d' \<longleftrightarrow> d' = d\<lparr>cartItems := cartItems d', cartItems_seq := cartItems_seq d'\<rparr>"

text \<open>A cart row with exactly one identity.\<close>

definition one_identity :: "cart_row \<Rightarrow> bool" where
  "one_identity c \<longleftrightarrow>
     (cart_userId c \<noteq> None \<and> cart_sessionId c = None) \<or>
     (cart_userId c = None \<and> cart_sessionId c \<noteq> None)"

text \<open>
  The subject of a bearer token is the id of a user row, and \<open>serial\<close> ids start at 1:
  a token whose subject parses to 0 is not issued by the login route.
\<close>

fun token_subject_ok :: "request \<Rightarrow> bool" where
  "token_subject_ok (GetCart c) = (auth_user c \<noteq> Some 0)"
| "token_subject_ok (AddItem c productId quantity) = (auth_user c \<noteq> Some 0)"
| "token_subject_ok (UpdateItem c itemId quantity) = (auth_user c \<noteq> Some 0)"
| "token_subject_ok (RemoveItem c itemId) = (auth_user c \<noteq> Some 0)"
| "token_subject_ok (ClearCart c) = (auth_user c \<noteq> Some 0)"
| "token_subject_ok (Login fault r) = True"
| "token_subject_ok (Checkout userId shippingAddress) = True"

text \<open>
  Every cart row of the second store is a row of the first with the same id and identity,
  or has the id the first store's counter gives next and exactly one identity.
\<close>

definition identity_kept :: "db \<Rightarrow> db \<Rightarrow> bool" where
  "identity_kept d d' \<longleftrightarrow>
     (\<forall>c' \<in> set (carts d').
        (\<exists>c \<in> set (carts d). cart_id c = cart_id c' \<and> cart_userId c = cart_userId c'
                                \<and> cart_sessionId c = cart_sessionId c')
        \<or> (cart_id c' = carts_seq d \<and> one_identity c'))"

section \<open>Example stores\<close>

definition product_A :: product_row where
  "product_A = \<lparr>product_id = 1, product_name = ''productA'', product_slug = ''product-a'',
                 product_description = None, product_price = 1000, product_stockQuantity = 5\<rparr>"

definition product_B :: product_row where
  "product_B = \<lparr>product_id = 2, product_name = ''productB'', product_slug = ''product-b'',
                 product_description = None, product_price = 700, product_stockQuantity = 0\<rparr>"

definition product_C :: product_row where
  "product_C = \<lparr>product_id = 3, product_name = ''productC'', product_slug = ''product-c'',
                 product_description = None, product_price = 500, product_stockQuantity = 10\<rparr>"

definition alice :: user_row where
  "alice = \<lparr>user_id = 1, user_email = ''alice@example.com'', user_passwordHash = ''hash-a'',
             user_fullName = Some ''Alice'', user_phone = None, user_role = customer\<rparr>"

definition bob :: user_row where
  "bob = \<lparr>user_id = 2, user_email = ''bob@example.com'', user_passwordHash = ''hash-b'',
           user_fullName = None, user_phone = None, user_role = customer\<rparr>"

definition alice_cart :: cart_row where
  "alice_cart = \<lparr>cart_id = 1, cart_userId = Some 1, cart_sessionId = None,
                  cart_expiresAt = Some 0, cart_updatedAt = 0\<rparr>"

definition guest_cart :: cart_row where
  "guest_cart = \<lparr>cart_id = 2, cart_userId = None, cart_sessionId = Some ''s-1'',
                  cart_expiresAt = Some 0, cart_updatedAt = 0\<rparr>"

definition line :: "int \<Rightarrow> int \<Rightarrow> int \<Rightarrow> int \<Rightarrow> cart_item_row" where
  "line n cid pid q = \<lparr>item_id = n, item_cartId = cid, item_productId = pid,
                        item_quantity = q, item_updatedAt = 0\<rparr>"

definition old_order :: order_row where
  "old_order = \<lparr>order_id = 1, order_userId = Some 2, order_orderNumber = ''ORD-20260101-1234'',
                 order_totalAmount = 700, order_status = pending, order_shippingAddress = None,
                 order_createdAt = 0, order_updatedAt = 0\<rparr>"

text \<open>A store with the three products, two users, Alice's cart and one order of Bob.\<close>

definition shop :: "cart_row list \<Rightarrow> cart_item_row list \<Rightarrow> db" where
  "shop cs ls = \<lparr>users = [alice, bob], products = [product_A, product_B, product_C],
                  productImages = [], carts = cs, cartItems = ls, orders = [old_order],
                  orderItems = [], orderStatusHistory = [],
                  carts_seq = 3, cartItems_seq = 10, orders_seq = 2, orderItems_seq = 1,
                  orderStatusHistory_seq = 1\<rparr>"

text \<open>The two carts of the testable properties of checkout.\<close>

definition shop_short :: db where
  "shop_short = shop [alice_cart] [line 1 1 1 2, line 2 1 2 1]"

definition shop_ready :: db where
  "shop_ready = shop [alice_cart] [line 1 1 1 2, line 2 1 3 3]"

definition home :: address where
  "home = \<lparr>addr_street = ''1 Main St'', addr_city = ''Springfield'', addr_state = ''IL'',
            addr_zip = ''62701'', addr_country = ''US''\<rparr>"

definition at_time :: "nat \<Rightarrow> nat \<Rightarrow> env" where
  "at_time t r = \<lparr>now = t, today = ''20260101'', random_suffix = r, uuidv4 = ''fresh-uuid'',
                   zone_shift = 0, scan_rank = (\<lambda>k. 0)\<rparr>"

definition shop_one :: db where
  "shop_one = shop [alice_cart] [line 1 1 1 2]"

text \<open>Alice's cart holds two of product A; the guest cart holds three of A and one of C.\<close>

definition shop_two :: db where
  "shop_two = shop [alice_cart, guest_cart] [line 1 1 1 2, line 2 2 1 3, line 3 2 3 1]"

definition alice_caller :: caller where
  "alice_caller = \<lparr>auth_user = Some 1, session_cookie = None\<rparr>"

definition guest_caller :: caller where
  "guest_caller = \<lparr>auth_user = None, session_cookie = Some ''s-1''\<rparr>"

definition stranger :: caller where
  "stranger = \<lparr>auth_user = None, session_cookie = Some ''s-9''\<rparr>"

text \<open>Alice logs in from the browser that holds the guest session.\<close>

definition alice_login :: login_request where
  "alice_login = \<lparr>login_email = ''alice@example.com'', login_password = ''a'',
                   header_session = Some ''s-1'', query_session = None\<rparr>"

text \<open>Bob, who has no cart, logs in from the same browser.\<close>

definition bob_login :: login_request where
  "bob_login = \<lparr>login_email = ''bob@example.com'', login_password = ''b'',
                 header_session = None, query_session = Some ''s-1''\<rparr>"

definition check_hash :: "string \<Rightarrow> string \<Rightarrow> bool" where
  "check_hash password hash \<longleftrightarrow> hash = ''hash-'' @ password"

text \<open>A product at the highest price of the column, 99999999.99, and a cart with two of it.\<close>

definition product_D :: product_row where
  "product_D = \<lparr>product_id = 4, product_name = ''productD'', product_slug = ''product-d'',
                 product_description = None, product_price = 9999999999,
                 product_stockQuantity = 5\<rparr>"

definition shop_dear :: db where
  "shop_dear = (shop [alice_cart] [line 1 1 4 2])
                 \<lparr>products := [product_A, product_B, product_C, product_D]\<rparr>"

text \<open>
  Alice's line for product A holds the largest quantity of the column; the guest cart
  holds three of A.
\<close>

definition shop_full :: db where
  "shop_full = shop [alice_cart, guest_cart] [line 1 1 1 2147483647, line 2 2 1 3]"

text \<open>A caller whose session cookie has 256 characters.\<close>

definition long_caller :: caller where
  "long_caller = \<lparr>auth_user = None, session_cookie = Some (replicate 256 (CHR ''s''))\<rparr>"

section \<open>Facts about lists and the store statements\<close>

lemmas example_defs = shop_short_def shop_ready_def shop_one_def shop_two_def shop_def
  product_A_def product_B_def product_C_def alice_def bob_def alice_cart_def guest_cart_def
  line_def old_order_def home_def at_time_def alice_caller_def guest_caller_def stranger_def
  alice_login_def bob_login_def check_hash_def product_D_def shop_dear_def shop_full_def
  long_caller_def


lemma find_Some_ex: "\<exists>x \<in> set xs. P x \<Longrightarrow> \<exists>y. find P xs = Some y \<and> y \<in> set xs \<and> P y"
  by (induction xs) auto

lemma filter_key_distinct:
  "distinct (map f xs) \<Longrightarrow> x \<in> set xs \<Longrightarrow> filter (\<lambda>y. f y = f x) xs = [x]"
proof (induction xs)
  case Nil
  then show ?case by simp
next
  case (Cons y ys)
  show ?case
  proof (cases "x = y")
    case True
    with Cons.prems have "\<forall>z \<in> set ys. f z \<noteq> f x" by (auto simp: image_iff)
    then have "filter (\<lambda>z. f z = f x) ys = []" by (simp add: filter_empty_conv)
    with True show ?thesis by simp
  next
    case False
    with Cons.prems have "x \<in> set ys" "f y \<noteq> f x" by auto
    with Cons show ?thesis by simp
  qed
qed

lemma decrement_stock_ok:
  "distinct (map (\<lambda>r. product_id (snd r)) rows) \<Longrightarrow>
   \<forall>r \<in> set rows. item_quantity (fst r) \<le> product_stockQuantity (snd r) \<Longrightarrow>
   decrement_stock rows d = (None, d\<lparr>products := map (stock_after rows) (products d)\<rparr>)"
proof (induction rows arbitrary: d)
  case Nil
  then show ?case by (simp add: stock_after_def)
next
  case (Cons r rows)
  obtain i p where r: "r = (i, p)" by (cases r)
  let ?d1 = "d\<lparr>products := map (\<lambda>p'. if product_id p' = product_id p
                 then p'\<lparr>product_stockQuantity := product_stockQuantity p - item_quantity i\<rparr>
                 else p') (products d)\<rparr>"
  from Cons.prems r have ok: "item_quantity i \<le> product_stockQuantity p" by simp
  then have step: "products_set_stock (product_id p) (product_stockQuantity p - item_quantity i) d
      = (None, ?d1)"
    by (simp add: products_set_stock_def)
  have IH: "decrement_stock rows ?d1 = (None, ?d1\<lparr>products := map (stock_after rows) (products ?d1)\<rparr>)"
    using Cons.prems by (intro Cons.IH) auto
  have notin: "\<forall>r' \<in> set rows. product_id (snd r') \<noteq> product_id p"
    using Cons.prems r by (auto simp: image_iff)
  have none: "find (\<lambda>(i', p'). product_id p' = product_id p) rows = None"
    using notin by (auto simp: find_None_iff)
  have "map (stock_after rows) (products ?d1) = map (stock_after (r # rows)) (products d)"
    using none by (auto simp: stock_after_def r)
  with step IH show ?case by (simp add: r)
qed

lemma distinct_pair_filter:
  "distinct (map (\<lambda>i. (a i, b i)) xs) \<Longrightarrow> distinct (map b (filter (\<lambda>i. a i = c) xs))"
  by (induction xs) (auto simp: image_iff)

lemma cart_lines_distinct_products:
  "cartItems_unique d \<Longrightarrow> distinct (map item_productId (cart_lines d cid))"
  unfolding cartItems_unique_def cart_lines_def by (rule distinct_pair_filter)

lemma product_lookup_single:
  assumes "products_pk d" "p \<in> set (products d)"
  shows "filter (\<lambda>q. product_id q = product_id p) (products d) = [p]"
  using assms filter_key_distinct [of product_id "products d" p] by (simp add: products_pk_def)

lemma cart_join_lines:
  assumes pk: "products_pk d" and fk: "cartItems_fk_product d"
  shows "mset (map fst (cart_join e d cid)) = mset (cart_lines d cid)"
    and "mset (map (\<lambda>r. product_id (snd r)) (cart_join e d cid))
         = mset (map item_productId (cart_lines d cid))"
proof -
  have single: "\<exists>p. filter (\<lambda>q. product_id q = item_productId i) (products d) = [p]
                  \<and> product_id p = item_productId i"
    if "i \<in> set xs" "set xs \<subseteq> set (cartItems d)" for i xs
  proof -
    from that fk obtain p where p: "p \<in> set (products d)" "product_id p = item_productId i"
      by (auto simp: cartItems_fk_product_def)
    with product_lookup_single [OF pk p(1)] show ?thesis by auto
  qed
  have gen: "set xs \<subseteq> set (cartItems d) \<Longrightarrow>
       map fst (concat (map (\<lambda>i. map (\<lambda>p. (i, p))
          (filter (\<lambda>p. product_id p = item_productId i) (products d))) xs)) = xs
     \<and> map (\<lambda>r. product_id (snd r)) (concat (map (\<lambda>i. map (\<lambda>p. (i, p))
          (filter (\<lambda>p. product_id p = item_productId i) (products d))) xs)) = map item_productId xs" for xs
  proof (induction xs)
    case Nil
    then show ?case by simp
  next
    case (Cons i xs)
    from single [of i "i # xs"] Cons.prems obtain p where
      "filter (\<lambda>q. product_id q = item_productId i) (products d) = [p]"
      "product_id p = item_productId i" by auto
    with Cons show ?case by simp
  qed
  have sub: "set (cart_lines d cid) \<subseteq> set (cartItems d)" by (auto simp: cart_lines_def)
  let ?base = "concat (map (\<lambda>i. map (\<lambda>p. (i, p))
          (filter (\<lambda>p. product_id p = item_productId i) (products d))) (cart_lines d cid))"
  from gen [OF sub] have "mset (map fst ?base) = mset (cart_lines d cid)"
    and "mset (map (\<lambda>r. product_id (snd r)) ?base) = mset (map item_productId (cart_lines d cid))"
    by simp_all
  then show "mset (map fst (cart_join e d cid)) = mset (cart_lines d cid)"
    and "mset (map (\<lambda>r. product_id (snd r)) (cart_join e d cid))
         = mset (map item_productId (cart_lines d cid))"
    by (simp_all add: cart_join_def cart_lines_def)
qed

lemma cart_join_distinct:
  assumes "products_pk d" "cartItems_fk_product d" "cartItems_unique d"
  shows "distinct (map (\<lambda>r. product_id (snd r)) (cart_join e d cid))"
  using cart_join_lines(2) [OF assms(1,2), of e cid] cart_lines_distinct_products [OF assms(3), of cid]
  by (metis mset_eq_imp_distinct_iff)

lemma cart_join_mem:
  "(i, p) \<in> set (cart_join e d cid) \<longleftrightarrow>
     i \<in> set (cartItems d) \<and> item_cartId i = cid \<and> p \<in> set (products d)
     \<and> product_id p = item_productId i"
  by (auto simp: cart_join_def)

lemma cart_product_lines_alt:
  "cart_product_lines d cid pid = filter (\<lambda>i. item_productId i = pid) (cart_lines d cid)"
  by (simp add: cart_product_lines_def cart_lines_def)

lemma stock_after_quantity_in_cart:
  assumes pk: "products_pk d" and fk: "cartItems_fk_product d" and un: "cartItems_unique d"
    and p': "p' \<in> set (products d)"
  shows "stock_after (cart_join e d cid) p' =
         p'\<lparr>product_stockQuantity := product_stockQuantity p' - quantity_in_cart d cid (product_id p')\<rparr>"
proof (cases "find (\<lambda>(i, p). product_id p = product_id p') (cart_join e d cid)")
  case None
  then have "\<forall>r \<in> set (cart_join e d cid). product_id (snd r) \<noteq> product_id p'"
    by (auto simp: find_None_iff)
  then have "product_id p' \<notin> set (map (\<lambda>r. product_id (snd r)) (cart_join e d cid))"
    by auto
  then have "product_id p' \<notin> set (map item_productId (cart_lines d cid))"
    by (metis cart_join_lines(2) [OF pk fk] mset_eq_setD)
  then have "filter (\<lambda>i. item_productId i = product_id p') (cart_lines d cid) = []"
    by (auto simp: filter_empty_conv image_iff)
  with None show ?thesis by (simp add: stock_after_def quantity_in_cart_def cart_product_lines_alt)
next
  case (Some r)
  obtain i p where r: "r = (i, p)" by (cases r)
  from Some r have mem: "(i, p) \<in> set (cart_join e d cid)" and same: "product_id p = product_id p'"
    by (auto simp: find_Some_iff in_set_conv_nth)
  from mem have ip: "i \<in> set (cart_lines d cid)" "p \<in> set (products d)"
    "product_id p = item_productId i"
    by (auto simp: cart_join_mem cart_lines_def)
  from pk ip(2) p' same have eq: "p = p'"
    by (auto simp: products_pk_def distinct_map dest: inj_onD)
  have "filter (\<lambda>j. item_productId j = item_productId i) (cart_lines d cid) = [i]"
    by (rule filter_key_distinct [OF cart_lines_distinct_products [OF un] ip(1)])
  with ip(3) eq have "quantity_in_cart d cid (product_id p') = item_quantity i"
    by (simp add: quantity_in_cart_def cart_product_lines_alt)
  with Some r eq show ?thesis by (simp add: stock_after_def)
qed

lemma number_from_map:
  "number_from n (map f xs) = map (\<lambda>(k, x). (k, f x)) (number_from n xs)"
  by (induction xs arbitrary: n) auto





lemma items_pk_eq:
  "cartItems_pk d \<Longrightarrow> i \<in> set (cartItems d) \<Longrightarrow> j \<in> set (cartItems d) \<Longrightarrow>
   item_id i = item_id j \<Longrightarrow> i = j"
  by (auto simp: cartItems_pk_def distinct_map dest: inj_onD)

lemma unique_product_line:
  assumes "cartItems_unique d" "ex \<in> set (cartItems d)"
  shows "cart_product_lines d (item_cartId ex) (item_productId ex) = [ex]"
  using filter_key_distinct [of "\<lambda>i. (item_cartId i, item_productId i)" "cartItems d" ex] assms
  by (simp add: cartItems_unique_def cart_product_lines_def)

lemma replace_filter:
  assumes "P ex' = P ex"
  shows "filter P (map (\<lambda>i. if i = ex then ex' else i) xs)
         = map (\<lambda>i. if i = ex then ex' else i) (filter P xs)"
  using assms by (induction xs) auto

lemma replace_keys:
  "f ex' = f ex \<Longrightarrow> map (f \<circ> (\<lambda>i. if i = ex then ex' else i)) xs = map f xs"
  by (induction xs) auto

lemma replace_absent: "ex \<notin> set xs \<Longrightarrow> map (\<lambda>i. if i = ex then ex' else i) xs = xs"
  by (induction xs) auto

lemma set_quantity_lines:
  assumes wf: "wf_items d" and ex: "ex \<in> set (cartItems d)" and n: "0 < n" "n \<le> 2147483647"
  shows "\<exists>d1. cartItems_set_quantity (item_id ex) n None d = (None, d1)
      \<and> wf_items d1
      \<and> items_only d d1 \<and> cartItems_seq d1 = cartItems_seq d
      \<and> (\<forall>c p. cart_product_lines d1 c p =
            (if c = item_cartId ex \<and> p = item_productId ex
             then [ex\<lparr>item_quantity := n\<rparr>] else cart_product_lines d c p))"
proof -
  let ?ex' = "ex\<lparr>item_quantity := n\<rparr>"
  let ?T' = "map (\<lambda>i. if i = ex then ?ex' else i) (cartItems d)"
  let ?d1 = "d\<lparr>cartItems := ?T'\<rparr>"
  from wf have pk: "cartItems_pk d" and se: "cartItems_serial d" and un: "cartItems_unique d"
    and ck: "cartItems_check d" by (simp_all add: wf_items_def)
  have "map (\<lambda>i. if item_id i = item_id ex then i\<lparr>item_quantity := n\<rparr> else i) (cartItems d) = ?T'"
    using items_pk_eq [OF pk _ ex] by (intro map_cong) auto
  then have run: "cartItems_set_quantity (item_id ex) n None d = (None, ?d1)"
    unfolding cartItems_set_quantity_def option.case using n by (simp add: int4_def)
  have wf1: "wf_items ?d1"
    using pk se un ck n ex
    by (auto simp: wf_items_def cartItems_pk_def cartItems_serial_def cartItems_unique_def
          cartItems_check_def replace_keys)
  have lines: "cart_product_lines ?d1 c p =
            (if c = item_cartId ex \<and> p = item_productId ex
             then [?ex'] else cart_product_lines d c p)" for c p
  proof -
    have "cart_product_lines ?d1 c p
        = map (\<lambda>i. if i = ex then ?ex' else i) (cart_product_lines d c p)"
      by (simp add: cart_product_lines_def replace_filter)
    moreover have "cart_product_lines d c p = [ex]" if "c = item_cartId ex \<and> p = item_productId ex"
      using that unique_product_line [OF un ex] by simp
    moreover have "ex \<notin> set (cart_product_lines d c p)"
      if "\<not> (c = item_cartId ex \<and> p = item_productId ex)"
      using that by (auto simp: cart_product_lines_def)
    ultimately show ?thesis by (auto simp: replace_absent)
  qed
  from run wf1 lines show ?thesis by (intro exI [of _ ?d1]) (simp add: items_only_def)
qed

lemma insert_lines:
  assumes wf: "wf_items d" and q: "0 < q" "q \<le> 2147483647"
    and seq: "cartItems_seq d \<le> 2147483647" and none: "cart_product_lines d c0 p0 = []"
  shows "\<exists>d1 new. cartItems_insert c0 p0 q t d = (None, d1)
      \<and> wf_items d1
      \<and> items_only d d1 \<and> cartItems_seq d1 = cartItems_seq d + 1
      \<and> item_quantity new = q
      \<and> (\<forall>c p. cart_product_lines d1 c p =
            (if c = c0 \<and> p = p0 then [new] else cart_product_lines d c p))"
proof -
  let ?new = "\<lparr>item_id = cartItems_seq d, item_cartId = c0, item_productId = p0,
                   item_quantity = q, item_updatedAt = t\<rparr>"
  let ?d1 = "d\<lparr>cartItems_seq := cartItems_seq d + 1, cartItems := cartItems d @ [?new]\<rparr>"
  from wf have pk: "cartItems_pk d" and se: "cartItems_serial d" and un: "cartItems_unique d"
    and ck: "cartItems_check d" by (simp_all add: wf_items_def)
  from none have absent: "(c0, p0) \<notin> set (map (\<lambda>i. (item_cartId i, item_productId i)) (cartItems d))"
    by (auto simp: cart_product_lines_def filter_empty_conv)
  then have run: "cartItems_insert c0 p0 q t d = (None, ?d1)"
    using q seq by (simp add: cartItems_insert_def Let_def int4_def)
  have fresh: "cartItems_seq d \<notin> set (map item_id (cartItems d))"
    using se by (auto simp: cartItems_serial_def)
  have wf1: "wf_items ?d1"
    using pk se un ck q absent fresh
    by (auto simp: wf_items_def cartItems_pk_def cartItems_serial_def cartItems_unique_def
          cartItems_check_def)
  have lines: "cart_product_lines ?d1 c p =
            (if c = c0 \<and> p = p0 then [?new] else cart_product_lines d c p)" for c p
    using none by (auto simp: cart_product_lines_def)
  from run wf1 lines show ?thesis
    by (intro exI [of _ ?d1] exI [of _ ?new]) (simp add: items_only_def)
qed

lemma items_only_trans: "items_only a b \<Longrightarrow> items_only b c \<Longrightarrow> items_only a c"
  unfolding items_only_def by (cases a, cases b, cases c) simp

lemma items_only_carts: "items_only d d' \<Longrightarrow> carts d' = carts d"
  unfolding items_only_def by (cases d, cases d') simp

lemma merge_step:
  assumes wf: "wf_items d" and q: "0 < q"
    and fit: "quantity_in_cart d ucid pid + q \<le> 2147483647"
    and seq: "cartItems_seq d \<le> 2147483647"
  shows "\<exists>d1 l1.
      (case find (\<lambda>i. item_cartId i = ucid \<and> item_productId i = pid) (cartItems d) of
         Some ex \<Rightarrow> cartItems_set_quantity (item_id ex) (item_quantity ex + q) None d
       | None \<Rightarrow> cartItems_insert ucid pid q t d) = (None, d1)
      \<and> wf_items d1 \<and> items_only d d1 \<and> cartItems_seq d1 \<le> cartItems_seq d + 1
      \<and> item_quantity l1 = quantity_in_cart d ucid pid + q
      \<and> (\<forall>c p. cart_product_lines d1 c p =
            (if c = ucid \<and> p = pid then [l1] else cart_product_lines d c p))"
proof (cases "find (\<lambda>i. item_cartId i = ucid \<and> item_productId i = pid) (cartItems d)")
  case None
  then have empty: "cart_product_lines d ucid pid = []"
    by (auto simp: find_None_iff cart_product_lines_def filter_empty_conv)
  from fit empty have "q \<le> 2147483647" by (simp add: quantity_in_cart_def)
  from insert_lines [OF wf q this seq empty, of t] None empty show ?thesis
    by (auto simp: quantity_in_cart_def)
next
  case (Some ex)
  then have ex: "ex \<in> set (cartItems d)" "item_cartId ex = ucid" "item_productId ex = pid"
    by (auto simp: find_Some_iff)
  from wf ex(1) have "0 < item_quantity ex"
    by (simp add: wf_items_def cartItems_check_def)
  with q have n: "0 < item_quantity ex + q" by simp
  from wf have un: "cartItems_unique d" by (simp add: wf_items_def)
  from unique_product_line [OF un ex(1)] ex have qe: "quantity_in_cart d ucid pid = item_quantity ex"
    by (simp add: quantity_in_cart_def)
  then have qn: "item_quantity (ex\<lparr>item_quantity := item_quantity ex + q\<rparr>)
      = quantity_in_cart d ucid pid + q" by simp
  from fit qe have m: "item_quantity ex + q \<le> 2147483647" by simp
  from set_quantity_lines [OF wf ex(1) n m] obtain d1 where
    "cartItems_set_quantity (item_id ex) (item_quantity ex + q) None d = (None, d1)"
    "wf_items d1" "items_only d d1" "cartItems_seq d1 = cartItems_seq d"
    "\<forall>c p. cart_product_lines d1 c p =
            (if c = ucid \<and> p = pid then [ex\<lparr>item_quantity := item_quantity ex + q\<rparr>]
             else cart_product_lines d c p)"
    using ex by auto
  with Some qn show ?thesis
    by (intro exI [of _ d1] exI [of _ "ex\<lparr>item_quantity := item_quantity ex + q\<rparr>"]) simp
qed

lemma merge_items_None_Cons:
  "merge_items None e ucid (item # rest) d =
     (case (case find (\<lambda>i. item_cartId i = ucid \<and> item_productId i = item_productId item)
                  (cartItems d) of
              Some ex \<Rightarrow> cartItems_set_quantity (item_id ex)
                           (item_quantity ex + item_quantity item) None d
            | None \<Rightarrow> cartItems_insert ucid (item_productId item) (item_quantity item) (now e) d) of
        (Some err, d1) \<Rightarrow> (Some err, None, d1)
      | (None, d1) \<Rightarrow> merge_items None e ucid rest d1)"
  by (simp add: fails_def tick_def split: option.splits prod.splits)

lemma merge_items_ok:
  assumes "wf_items d" and "\<forall>gl \<in> set items. 0 < item_quantity gl"
    and "distinct (map item_productId items)"
    and "\<forall>gl \<in> set items.
           quantity_in_cart d ucid (item_productId gl) + item_quantity gl \<le> 2147483647"
    and "cartItems_seq d + int (length items) \<le> 2147483648"
  shows "\<exists>d'. merge_items None e ucid items d = (None, None, d')
     \<and> wf_items d' \<and> items_only d d'
     \<and> (\<forall>c p. \<not> (c = ucid \<and> p \<in> item_productId ` set items) \<longrightarrow>
            cart_product_lines d' c p = cart_product_lines d c p)
     \<and> (\<forall>gl \<in> set items. \<exists>l'. cart_product_lines d' ucid (item_productId gl) = [l']
            \<and> item_quantity l' = quantity_in_cart d ucid (item_productId gl) + item_quantity gl)"
  using assms
proof (induction items arbitrary: d)
  case Nil
  then show ?case by (simp add: items_only_def)
next
  case (Cons gl rest)
  let ?pid = "item_productId gl"
  from Cons.prems have q: "0 < item_quantity gl"
    and fit: "quantity_in_cart d ucid ?pid + item_quantity gl \<le> 2147483647"
    and seq: "cartItems_seq d \<le> 2147483647" by simp_all
  from merge_step [OF Cons.prems(1) q fit seq, of "now e"] obtain d1 l1 where
    step: "(case find (\<lambda>i. item_cartId i = ucid \<and> item_productId i = ?pid) (cartItems d) of
         Some ex \<Rightarrow> cartItems_set_quantity (item_id ex) (item_quantity ex + item_quantity gl) None d
       | None \<Rightarrow> cartItems_insert ucid ?pid (item_quantity gl) (now e) d) = (None, d1)"
    and wf1: "wf_items d1" and fr1: "items_only d d1"
    and seq1: "cartItems_seq d1 \<le> cartItems_seq d + 1"
    and q1: "item_quantity l1 = quantity_in_cart d ucid ?pid + item_quantity gl"
    and lines1: "\<And>c p. cart_product_lines d1 c p =
            (if c = ucid \<and> p = ?pid then [l1] else cart_product_lines d c p)"
    by blast
  from Cons.prems have pos': "\<forall>gl \<in> set rest. 0 < item_quantity gl"
    and dist': "distinct (map item_productId rest)"
    and notin: "?pid \<notin> item_productId ` set rest" by auto
  have same: "quantity_in_cart d1 ucid (item_productId g) = quantity_in_cart d ucid (item_productId g)"
    if "g \<in> set rest" for g
  proof -
    from that notin have "item_productId g \<noteq> ?pid" by (auto simp: image_iff)
    with lines1 [of ucid "item_productId g"] show ?thesis by (simp add: quantity_in_cart_def)
  qed
  from Cons.prems(4) same have fit': "\<forall>gl \<in> set rest.
      quantity_in_cart d1 ucid (item_productId gl) + item_quantity gl \<le> 2147483647" by simp
  from Cons.prems(5) seq1 have seq': "cartItems_seq d1 + int (length rest) \<le> 2147483648" by simp
  from Cons.IH [OF wf1 pos' dist' fit' seq'] obtain d' where
    run: "merge_items None e ucid rest d1 = (None, None, d')"
    and wf': "wf_items d'" and fr': "items_only d1 d'"
    and other: "\<And>c p. \<not> (c = ucid \<and> p \<in> item_productId ` set rest) \<Longrightarrow>
            cart_product_lines d' c p = cart_product_lines d1 c p"
    and merged: "\<And>g. g \<in> set rest \<Longrightarrow> \<exists>l'. cart_product_lines d' ucid (item_productId g) = [l']
            \<and> item_quantity l' = quantity_in_cart d1 ucid (item_productId g) + item_quantity g"
    by blast
  have a: "merge_items None e ucid (gl # rest) d = (None, None, d')"
    by (simp only: merge_items_None_Cons step) (simp add: run)
  have b: "cart_product_lines d' c p = cart_product_lines d c p"
    if "\<not> (c = ucid \<and> p \<in> item_productId ` set (gl # rest))" for c p
    using that other [of c p] lines1 [of c p] by auto
  have c: "\<exists>l'. cart_product_lines d' ucid (item_productId g) = [l']
            \<and> item_quantity l' = quantity_in_cart d ucid (item_productId g) + item_quantity g"
    if "g \<in> set (gl # rest)" for g
  proof (cases "g = gl")
    case True
    with other [of ucid ?pid] notin lines1 [of ucid ?pid] q1 show ?thesis by simp
  next
    case False
    with that have g: "g \<in> set rest" by simp
    with merged [OF g] same [OF g] show ?thesis by simp
  qed
  show ?case
  proof (intro exI [of _ d'] conjI allI ballI impI)
    show "merge_items None e ucid (gl # rest) d = (None, None, d')" by (rule a)
    show "wf_items d'" by (rule wf')
    show "items_only d d'" by (rule items_only_trans [OF fr1 fr'])
  qed (use b c in blast)+
qed

lemma quantity_in_cart_find:
  assumes "cartItems_unique d"
  shows "quantity_in_cart d cid pid =
     (case find (\<lambda>i. item_cartId i = cid \<and> item_productId i = pid) (cartItems d) of
        Some ul \<Rightarrow> item_quantity ul | None \<Rightarrow> 0)"
proof (cases "find (\<lambda>i. item_cartId i = cid \<and> item_productId i = pid) (cartItems d)")
  case None
  then have "cart_product_lines d cid pid = []"
    by (auto simp: find_None_iff cart_product_lines_def filter_empty_conv)
  with None show ?thesis by (simp add: quantity_in_cart_def)
next
  case (Some ul)
  then have "ul \<in> set (cartItems d)" "item_cartId ul = cid" "item_productId ul = pid"
    by (auto simp: find_Some_iff)
  with unique_product_line [OF assms, of ul] Some show ?thesis
    by (simp add: quantity_in_cart_def)
qed

lemma merge_into_ok:
  assumes wf: "wf_items d" and ne: "ucid \<noteq> gid"
    and G: "mset G = mset (cart_lines d gid)"
    and fit: "\<forall>gl \<in> set (cart_lines d gid).
           quantity_in_cart d ucid (item_productId gl) + item_quantity gl \<le> 2147483647"
    and seq: "cartItems_seq d + int (length (cart_lines d gid)) \<le> 2147483648"
  shows "\<exists>d'. merge_into None e ucid gid G d = (None, d')
     \<and> carts d' = filter (\<lambda>c. cart_id c \<noteq> gid) (carts d)
     \<and> cart_lines d' gid = []
     \<and> (\<forall>p. p \<notin> item_productId ` set (cart_lines d gid) \<longrightarrow>
            cart_product_lines d' ucid p = cart_product_lines d ucid p)
     \<and> (\<forall>gl \<in> set (cart_lines d gid). \<exists>l'.
            cart_product_lines d' ucid (item_productId gl) = [l']
            \<and> item_quantity l' = quantity_in_cart d ucid (item_productId gl) + item_quantity gl)"
proof -
  let ?G = "G"
  from G have setG: "set G = set (cart_lines d gid)" by (rule mset_eq_setD)
  from G have lenG: "length G = length (cart_lines d gid)" by (rule mset_eq_length)
  from wf have un: "cartItems_unique d" and ck: "cartItems_check d"
    by (simp_all add: wf_items_def)
  have pos: "\<forall>gl \<in> set ?G. 0 < item_quantity gl"
    using ck by (auto simp: setG cartItems_check_def cart_lines_def)
  have "mset (map item_productId G) = mset (map item_productId (cart_lines d gid))"
    using G by simp
  then have dist: "distinct (map item_productId ?G)"
    using cart_lines_distinct_products [OF un, of gid] by (metis mset_eq_imp_distinct_iff)
  from fit have fit': "\<forall>gl \<in> set ?G.
           quantity_in_cart d ucid (item_productId gl) + item_quantity gl \<le> 2147483647"
    by (simp add: setG)
  from seq have seq': "cartItems_seq d + int (length ?G) \<le> 2147483648" by (simp add: lenG)
  from merge_items_ok [OF wf pos dist fit' seq', of e] obtain dm where
    run: "merge_items None e ucid ?G d = (None, None, dm)"
    and fr: "items_only d dm"
    and other: "\<And>c p. \<not> (c = ucid \<and> p \<in> item_productId ` set ?G) \<Longrightarrow>
            cart_product_lines dm c p = cart_product_lines d c p"
    and merged: "\<And>g. g \<in> set ?G \<Longrightarrow> \<exists>l'. cart_product_lines dm ucid (item_productId g) = [l']
            \<and> item_quantity l' = quantity_in_cart d ucid (item_productId g) + item_quantity g"
    by blast
  let ?d' = "carts_delete gid (cartItems_delete_cart gid dm)"
  have a: "merge_into None e ucid gid ?G d = (None, ?d')"
    by (simp add: merge_into_def run fails_def tick_def)
  from fr have cs: "carts dm = carts d" by (rule items_only_carts)
  have keep: "cart_product_lines ?d' ucid p = cart_product_lines dm ucid p" for p
    using ne by (auto simp: cart_product_lines_def carts_delete_def cartItems_delete_cart_def
                  intro: filter_cong)
  have b: "carts ?d' = filter (\<lambda>c. cart_id c \<noteq> gid) (carts d)"
    by (simp add: carts_delete_def cartItems_delete_cart_def cs)
  have c: "cart_lines ?d' gid = []"
    by (simp add: cart_lines_def carts_delete_def cartItems_delete_cart_def filter_empty_conv)
  show ?thesis
  proof (intro exI [of _ ?d'] conjI allI ballI impI)
    show "merge_into None e ucid gid ?G d = (None, ?d')" by (rule a)
    show "carts ?d' = filter (\<lambda>c. cart_id c \<noteq> gid) (carts d)" by (rule b)
    show "cart_lines ?d' gid = []" by (rule c)
    show "cart_product_lines ?d' ucid p = cart_product_lines d ucid p"
      if "p \<notin> item_productId ` set (cart_lines d gid)" for p
      using that other [of ucid p] keep [of p] by (simp add: setG)
    show "\<exists>l'. cart_product_lines ?d' ucid (item_productId gl) = [l']
            \<and> item_quantity l' = quantity_in_cart d ucid (item_productId gl) + item_quantity gl"
      if "gl \<in> set (cart_lines d gid)" for gl
      using merged [of gl] that keep [of "item_productId gl"] by (simp add: setG)
  qed
qed

lemma wf_items_carts_insert:
  "wf_items (d\<lparr>carts_seq := n, carts := cs\<rparr>) = wf_items d"
  by (simp add: wf_items_def cartItems_pk_def cartItems_serial_def cartItems_unique_def
        cartItems_check_def)

lemma merge_items_fault:
  "merge_items (Some j) e ucid items d = (r, f', d') \<Longrightarrow>
     r \<noteq> None \<or> (2 * length items \<le> j \<and> f' = Some (j - 2 * length items))"
proof (induction items arbitrary: j d)
  case Nil
  then show ?case by simp
next
  case (Cons item rest)
  show ?case
  proof (cases "j < 2")
    case True
    then have "j = 0 \<or> j = 1" by auto
    with Cons.prems show ?thesis
      by (auto simp: fails_def tick_def)
  next
    case False
    then have t: "tick (tick (Some j)) = Some (j - 2)" "\<not> fails (Some j)" "\<not> fails (tick (Some j))"
      by (auto simp: tick_def fails_def)
    from Cons.prems t have
      "r \<noteq> None \<or> merge_items (Some (j - 2)) e ucid rest
           (snd (case find (\<lambda>i. item_cartId i = ucid \<and> item_productId i = item_productId item)
                     (cartItems d) of
              Some ex \<Rightarrow> cartItems_set_quantity (item_id ex)
                           (item_quantity ex + item_quantity item) None d
            | None \<Rightarrow> cartItems_insert ucid (item_productId item) (item_quantity item) (now e) d))
         = (r, f', d')"
      by (auto split: option.splits prod.splits)
    then show ?thesis
    proof
      assume "r \<noteq> None" then show ?thesis by simp
    next
      assume "merge_items (Some (j - 2)) e ucid rest
           (snd (case find (\<lambda>i. item_cartId i = ucid \<and> item_productId i = item_productId item)
                     (cartItems d) of
              Some ex \<Rightarrow> cartItems_set_quantity (item_id ex)
                           (item_quantity ex + item_quantity item) None d
            | None \<Rightarrow> cartItems_insert ucid (item_productId item) (item_quantity item) (now e) d))
         = (r, f', d')"
      from Cons.IH [OF this] False show ?thesis by auto
    qed
  qed
qed

lemma merge_into_fault:
  assumes "j < 2 * length items + 2"
  shows "fst (merge_into (Some j) e ucid gid items d) \<noteq> None"
proof -
  obtain r f' d' where m: "merge_items (Some j) e ucid items d = (r, f', d')"
    by (cases "merge_items (Some j) e ucid items d") auto
  from merge_items_fault [OF m] show ?thesis
  proof
    assume "r \<noteq> None"
    with m show ?thesis by (auto simp: merge_into_def)
  next
    assume a: "2 * length items \<le> j \<and> f' = Some (j - 2 * length items)"
    with assms have "j - 2 * length items = 0 \<or> j - 2 * length items = 1" by auto
    with a m show ?thesis
      by (cases r) (auto simp: merge_into_def fails_def tick_def Let_def)
  qed
qed

lemma merge_guest_cart_fault:
  assumes "j < merge_statements sessionId u d"
  shows "fst (merge_guest_cart (Some j) e sessionId u d) \<noteq> None"
proof -
  from assms have sid: "truthy_string sessionId"
    by (auto simp: merge_statements_def split: if_splits)
  show ?thesis
  proof (cases "find (\<lambda>c. cart_sessionId c = sessionId \<and> cart_userId c = None) (carts d)")
    case None
    with assms sid have "j = 0" by (simp add: merge_statements_def)
    with sid show ?thesis by (simp add: merge_guest_cart_def fails_def)
  next
    case (Some g)
    let ?F = "filter (\<lambda>i. item_cartId i = cart_id g) (cartItems d)"
    let ?G = "sort_key (\<lambda>i. scan_rank e [item_id i]) ?F"
    have len: "length ?G = length ?F" by simp
    have emp: "?G = [] \<longleftrightarrow> ?F = []" by (metis len length_0_conv)
    show ?thesis
    proof (cases "?F = []")
      case True
      with assms sid Some have "j = 0 \<or> j = 1" by (auto simp: merge_statements_def)
      with sid Some True show ?thesis
        by (auto simp: merge_guest_cart_def fails_def tick_def)
    next
      case False
      then have ne: "?G \<noteq> []" using emp by simp
      show ?thesis
      proof (cases "find (\<lambda>c. cart_userId c = Some (user_id u)) (carts d)")
        case (Some uc)
        with assms sid \<open>find _ (carts d) = Some g\<close> False
        have j: "j < 2 * length ?G + 5" by (simp add: merge_statements_def Let_def)
        show ?thesis
        proof (cases "j < 3")
          case True
          then have "j = 0 \<or> j = 1 \<or> j = 2" by auto
          with sid \<open>find _ (carts d) = Some g\<close> ne Some show ?thesis
            by (auto simp: merge_guest_cart_def fails_def tick_def Let_def)
        next
          case F: False
          then have t: "tick (tick (tick (Some j))) = Some (j - 3)" "\<not> fails (Some j)"
            "\<not> fails (tick (Some j))" "\<not> fails (tick (tick (Some j)))"
            by (auto simp: tick_def fails_def)
          from j F have "j - 3 < 2 * length ?G + 2" by auto
          from merge_into_fault [OF this] sid \<open>find _ (carts d) = Some g\<close> ne Some t
          show ?thesis by (simp add: merge_guest_cart_def Let_def)
        qed
      next
        case None
        with assms sid \<open>find _ (carts d) = Some g\<close> False
        have j: "j < 2 * length ?G + 6" by (simp add: merge_statements_def Let_def)
        show ?thesis
        proof (cases "j < 4")
          case True
          then have "j = 0 \<or> j = 1 \<or> j = 2 \<or> j = 3" by auto
          with sid \<open>find _ (carts d) = Some g\<close> ne None show ?thesis
            by (auto simp: merge_guest_cart_def fails_def tick_def Let_def)
        next
          case F: False
          then have t: "tick (tick (tick (tick (Some j)))) = Some (j - 4)" "\<not> fails (Some j)"
            "\<not> fails (tick (Some j))" "\<not> fails (tick (tick (Some j)))"
            "\<not> fails (tick (tick (tick (Some j))))"
            by (auto simp: tick_def fails_def)
          from j F have "j - 4 < 2 * length ?G + 2" by auto
          from merge_into_fault [OF this] sid \<open>find _ (carts d) = Some g\<close> ne None t
          show ?thesis by (simp add: merge_guest_cart_def Let_def carts_insert_def)
        qed
      qed
    qed
  qed
qed

lemma identity_kept_subset:
  assumes "set (carts d') \<subseteq> set (carts d) \<union> {n}" "cart_id n = carts_seq d" "one_identity n"
  shows "identity_kept d d'"
  unfolding identity_kept_def using assms by blast

lemma identity_kept_same: "set (carts d') \<subseteq> set (carts d) \<Longrightarrow> identity_kept d d'"
  unfolding identity_kept_def by blast

lemma identity_kept_touch: "identity_kept d (carts_touch cid x t d)"
  unfolding identity_kept_def carts_touch_def by auto

lemma identity_kept_carts:
  "identity_kept d d' \<Longrightarrow> carts d'' = carts d' \<Longrightarrow> identity_kept d d''"
  unfolding identity_kept_def by simp

lemma getOrCreateCart_identity:
  assumes "auth_user c \<noteq> Some 0"
  shows "identity_kept d (snd (getOrCreateCart e c d))"
proof (cases "find_cart (auth_user c) (session_of e c) d")
  case None
  have "one_identity \<lparr>cart_id = carts_seq d, cart_userId = auth_user c,
          cart_sessionId = session_of e c, cart_expiresAt = Some (getExpirationDate e),
          cart_updatedAt = now e\<rparr>"
    using assms by (auto simp: one_identity_def session_of_def truthy_number_def)
  with None show ?thesis
    by (auto simp: getOrCreateCart_def carts_insert_def Let_def identity_kept_def
          split: option.splits)
next
  case (Some cart)
  then show ?thesis
    by (simp add: getOrCreateCart_def Let_def identity_kept_touch)
qed

lemma set_quantity_cartsD:
  "cartItems_set_quantity i q t d = (r, d2) \<Longrightarrow> carts d2 = carts d \<and> carts_seq d2 = carts_seq d"
  by (auto simp: cartItems_set_quantity_def split: if_splits)

lemma items_insert_cartsD:
  "cartItems_insert c p q t d = (r, d2) \<Longrightarrow> carts d2 = carts d \<and> carts_seq d2 = carts_seq d"
  by (auto simp: cartItems_insert_def Let_def split: if_splits)

lemma add_item_carts:
  "carts (snd (add_item e c p q d)) = carts d
   \<or> carts (snd (add_item e c p q d)) = carts (snd (getOrCreateCart e c d))"
proof -
  obtain cart d1 where g: "getOrCreateCart e c d = (cart, d1)"
    by (cases "getOrCreateCart e c d") auto
  show ?thesis
    by (auto simp: add_item_def g Let_def split: option.splits prod.splits sum.splits
          dest: set_quantity_cartsD items_insert_cartsD)
qed

lemma update_item_carts:
  "carts (snd (update_item e c i q d)) = carts d
   \<or> carts (snd (update_item e c i q d)) = carts (snd (getOrCreateCart e c d))"
proof -
  obtain cart d1 where g: "getOrCreateCart e c d = (cart, d1)"
    by (cases "getOrCreateCart e c d") auto
  show ?thesis
    by (auto simp: update_item_def g Let_def split: option.splits prod.splits sum.splits
          dest: set_quantity_cartsD)
qed

lemma remove_item_carts:
  "carts (snd (remove_item e c i d)) = carts d
   \<or> carts (snd (remove_item e c i d)) = carts (snd (getOrCreateCart e c d))"
proof -
  obtain cart d1 where g: "getOrCreateCart e c d = (cart, d1)"
    by (cases "getOrCreateCart e c d") auto
  show ?thesis
    by (simp add: remove_item_def g Let_def cartItems_delete_def split: option.splits sum.splits)
qed

lemma carts_set_quantity [simp]: "carts (snd (cartItems_set_quantity i q t d)) = carts d"
  by (simp add: cartItems_set_quantity_def)

lemma carts_items_insert [simp]: "carts (snd (cartItems_insert c p q t d)) = carts d"
  by (simp add: cartItems_insert_def Let_def)

lemma carts_orders_insert [simp]:
  "carts (snd (orders_insert uid num amount st addr t d)) = carts d"
  by (simp add: orders_insert_def Let_def)

lemma carts_orderItems_insert [simp]: "carts (snd (orderItems_insert vals d)) = carts d"
  by (simp add: orderItems_insert_def Let_def)

lemma carts_set_stock [simp]: "carts (snd (products_set_stock pid q d)) = carts d"
  by (simp add: products_set_stock_def)

lemma carts_decrement_stock [simp]: "carts (snd (decrement_stock rows d)) = carts d"
  by (induction rows arbitrary: d) (auto simp: case_prod_beta split: option.splits)

lemma carts_status_insert [simp]:
  "carts (snd (orderStatusHistory_insert oid st notes t d)) = carts d"
  by (simp add: orderStatusHistory_insert_def)

lemma checkout_carts: "carts (snd (checkout e userId a d)) = carts d"
  by (simp add: checkout_def Let_def case_prod_beta
        cartItems_delete_cart_def split: option.splits sum.splits)

lemma carts_merge_items [simp]: "carts (snd (snd (merge_items f e ucid items d))) = carts d"
  by (induction items arbitrary: f d) (simp_all add: case_prod_beta split: option.splits)

lemma merge_into_carts:
  "set (carts (snd (merge_into f e ucid gid items d))) \<subseteq> set (carts d)"
  by (auto simp: merge_into_def Let_def case_prod_beta carts_delete_def cartItems_delete_cart_def
        split: option.splits)

lemma merge_guest_cart_carts:
  "set (carts (snd (merge_guest_cart f e sid u d))) \<subseteq> set (carts d) \<union>
     {\<lparr>cart_id = carts_seq d, cart_userId = Some (user_id u), cart_sessionId = None,
       cart_expiresAt = Some (now e + 7 * 24 * 60 * 60 * 1000), cart_updatedAt = now e\<rparr>}"
proof -
  have a: "set (carts (snd (merge_into f' e ucid gid items d)))
      \<subseteq> insert \<lparr>cart_id = carts_seq d, cart_userId = Some (user_id u), cart_sessionId = None,
                  cart_expiresAt = Some x, cart_updatedAt = now e\<rparr> (set (carts d))"
    for f' ucid gid items x
    using merge_into_carts [of f' e ucid gid items d] by auto
  have b: "set (carts (snd (merge_into f' e ucid gid items
        (d\<lparr>carts_seq := carts_seq d + 1,
           carts := carts d @ [\<lparr>cart_id = carts_seq d, cart_userId = Some (user_id u),
                   cart_sessionId = None, cart_expiresAt = Some x, cart_updatedAt = now e\<rparr>]\<rparr>))))
      \<subseteq> insert \<lparr>cart_id = carts_seq d, cart_userId = Some (user_id u), cart_sessionId = None,
                  cart_expiresAt = Some x, cart_updatedAt = now e\<rparr> (set (carts d))"
    for f' ucid gid items x
    using merge_into_carts [of f' e ucid gid items
        "d\<lparr>carts_seq := carts_seq d + 1,
           carts := carts d @ [\<lparr>cart_id = carts_seq d, cart_userId = Some (user_id u),
                   cart_sessionId = None, cart_expiresAt = Some x, cart_updatedAt = now e\<rparr>]\<rparr>"] by auto
  show ?thesis
    unfolding merge_guest_cart_def Let_def carts_insert_def
    by (simp add: a b subset_insertI split: option.splits)
qed

lemma login_identity: "identity_kept d (snd (login cmp f e r d))"
proof -
  have new: "one_identity \<lparr>cart_id = carts_seq d, cart_userId = Some (user_id u),
       cart_sessionId = None, cart_expiresAt = x, cart_updatedAt = t\<rparr>"
    for u :: user_row and x t
    by (simp add: one_identity_def)
  have "identity_kept d (snd (merge_guest_cart f' e sid u d))" for f' sid u
    by (rule identity_kept_subset [OF merge_guest_cart_carts]) (simp_all add: new)
  then show ?thesis
    by (simp add: login_def identity_kept_same case_prod_beta split: option.splits)
qed

section \<open>Checkout\<close>

text \<open>
  C1. If a line of the caller's cart asks for more than the stock of its product, checkout
  answers 400 with the insufficient-stock text naming a product of the cart that is short,
  its stock and the quantity asked, and the store it returns is the store it was given: no
  table is written.
\<close>

theorem checkout_insufficient_stock_aborts:
  assumes valid: "checkoutSchema a"
    and cart: "find (\<lambda>c. cart_userId c = Some userId) (carts d) = Some cart"
    and line: "i \<in> set (cartItems d)" "item_cartId i = cart_id cart"
    and prod: "p \<in> set (products d)" "product_id p = item_productId i"
    and short: "product_stockQuantity p < item_quantity i"
  shows "\<exists>i' p'. i' \<in> set (cartItems d) \<and> item_cartId i' = cart_id cart
           \<and> p' \<in> set (products d) \<and> product_id p' = item_productId i'
           \<and> product_stockQuantity p' < item_quantity i'
           \<and> checkout e userId a d =
               (JsonError 400 (InsufficientStockFor (product_name p')
                  (product_stockQuantity p') (item_quantity i')), d)"
proof -
  let ?rows = "cart_join e d (cart_id cart)"
  have mem: "(i, p) \<in> set ?rows"
    using line prod by (auto simp: cart_join_def)
  then have ne: "?rows \<noteq> []" by auto
  have "\<exists>x \<in> set ?rows. (\<lambda>(i, p). product_stockQuantity p < item_quantity i) x"
    using mem short by auto
  from find_Some_ex [OF this] obtain i' p' where
    f: "find (\<lambda>(i, p). product_stockQuantity p < item_quantity i) ?rows = Some (i', p')"
    and m: "(i', p') \<in> set ?rows" and s: "product_stockQuantity p' < item_quantity i'"
    by auto
  have "checkout e userId a d =
               (JsonError 400 (InsufficientStockFor (product_name p')
                  (product_stockQuantity p') (item_quantity i')), d)"
    using valid cart ne f by (simp add: checkout_def)
  moreover from m have "i' \<in> set (cartItems d) \<and> item_cartId i' = cart_id cart
           \<and> p' \<in> set (products d) \<and> product_id p' = item_productId i'"
    by (auto simp: cart_join_def)
  ultimately show ?thesis using s by blast
qed
theorem checkout_insufficient_stock_witness:
  "checkout (at_time 5 1234) 1 home shop_short =
     (JsonError 400 (InsufficientStockFor ''productB'' 0 1), shop_short)"
proof -
  have h1: "checkoutSchema home" by (simp add: checkoutSchema_def home_def)
  have h2: "find (\<lambda>c. cart_userId c = Some 1) (carts shop_short) = Some alice_cart"
    by (simp add: example_defs)
  have h3: "line 2 1 2 1 \<in> set (cartItems shop_short)" "item_cartId (line 2 1 2 1) = cart_id alice_cart"
    by (simp_all add: example_defs)
  have h4: "product_B \<in> set (products shop_short)" "product_id product_B = item_productId (line 2 1 2 1)"
    by (simp_all add: example_defs)
  have h5: "product_stockQuantity product_B < item_quantity (line 2 1 2 1)"
    by (simp add: example_defs)
  from checkout_insufficient_stock_aborts [OF h1 h2 h3 h4 h5, of "at_time 5 1234"]
  obtain i' p' where m: "i' \<in> set (cartItems shop_short)" "p' \<in> set (products shop_short)"
    "product_id p' = item_productId i'" "product_stockQuantity p' < item_quantity i'"
    and run: "checkout (at_time 5 1234) 1 home shop_short =
               (JsonError 400 (InsufficientStockFor (product_name p')
                  (product_stockQuantity p') (item_quantity i')), shop_short)"
    by blast
  from m have "i' = line 2 1 2 1 \<and> p' = product_B"
    by (auto simp: example_defs)
  with run show ?thesis by (simp add: product_B_def line_def)
qed


text \<open>
  C2 (amended). On a non-empty cart whose lines are all covered by the stock, and provided
  the generated order number is not the number of an existing order, the total is in the
  range of the \<open>decimal(10,2)\<close> column, the counters of the three order tables are not
  exhausted and the caller is a user of the store, checkout answers 201 and appends exactly one order with status
  \<open>pending\<close> and the sum of price times quantity as total, one order line per cart
  line with the product's id, name, quantity and current price (numbered in the order in
  which the store returned the lines), sets each product's stock to its stock less the
  quantity bought, deletes the lines of the cart and appends one \<open>pending\<close> status row
  with the note \<open>Order created\<close>. The constraints of the schema on products and cart
  lines are assumed of the store.
\<close>

theorem checkout_creates_order:
  assumes valid: "checkoutSchema a"
    and cart: "find (\<lambda>c. cart_userId c = Some userId) (carts d) = Some cart"
    and nonempty: "cart_lines d (cart_id cart) \<noteq> []"
    and stock: "\<forall>(i, p) \<in> set (cart_join e d (cart_id cart)).
                  item_quantity i \<le> product_stockQuantity p"
    and fresh: "generateOrderNumber e \<notin> set (map order_orderNumber (orders d))"
    and range: "numeric_10_2 (sum_list (map (\<lambda>(i, p). product_price p * item_quantity i)
                                              (cart_join e d (cart_id cart))))"
    and counters: "orders_seq d \<le> 2147483647"
      "orderItems_seq d + int (length (cart_lines d (cart_id cart))) - 1 \<le> 2147483647"
      "orderStatusHistory_seq d \<le> 2147483647"
    and user: "userId \<in> set (map user_id (users d))"
    and pk: "products_pk d" and fk: "cartItems_fk_product d"
    and un: "cartItems_unique d" and ck: "cartItems_check d"
  shows "\<exists>view d'. checkout e userId a d = (Json 201 (OrderBody view), d')
    \<and> mset (map fst (cart_join e d (cart_id cart))) = mset (cart_lines d (cart_id cart))
    \<and> orders d' = orders d @
          [\<lparr>order_id = orders_seq d, order_userId = Some userId,
            order_orderNumber = generateOrderNumber e,
            order_totalAmount = sum_list (map (\<lambda>(i, p). product_price p * item_quantity i)
                                              (cart_join e d (cart_id cart))),
            order_status = pending, order_shippingAddress = Some a,
            order_createdAt = now e, order_updatedAt = now e\<rparr>]
    \<and> orderItems d' = orderItems d @
          map (\<lambda>(n, i, p). \<lparr>oitem_id = n, oitem_orderId = orders_seq d,
                              oitem_productId = Some (product_id p),
                              oitem_quantity = item_quantity i,
                              oitem_priceAtTime = product_price p,
                              oitem_productName = Some (product_name p)\<rparr>)
              (number_from (orderItems_seq d) (cart_join e d (cart_id cart)))
    \<and> products d' =
          map (\<lambda>p. p\<lparr>product_stockQuantity :=
                       product_stockQuantity p - quantity_in_cart d (cart_id cart) (product_id p)\<rparr>)
              (products d)
    \<and> cartItems d' = filter (\<lambda>i. item_cartId i \<noteq> cart_id cart) (cartItems d)
    \<and> orderStatusHistory d' = orderStatusHistory d @
          [\<lparr>hist_id = orderStatusHistory_seq d, hist_orderId = orders_seq d,
            hist_status = pending, hist_notes = Some ''Order created'',
            hist_createdAt = now e\<rparr>]
    \<and> carts d' = carts d \<and> users d' = users d
    \<and> ov_id view = orders_seq d \<and> ov_status view = pending
    \<and> ov_totalAmount view = sum_list (map (\<lambda>(i, p). product_price p * item_quantity i)
                                           (cart_join e d (cart_id cart)))"
proof -
  let ?cid = "cart_id cart"
  let ?rows = "cart_join e d ?cid"
  let ?total = "sum_list (map (\<lambda>(i, p). product_price p * item_quantity i) ?rows)"
  let ?order = "\<lparr>order_id = orders_seq d, order_userId = Some userId,
            order_orderNumber = generateOrderNumber e, order_totalAmount = ?total,
            order_status = pending, order_shippingAddress = Some a,
            order_createdAt = now e, order_updatedAt = now e\<rparr>"
  let ?d1 = "d\<lparr>orders_seq := orders_seq d + 1, orders := orders d @ [?order]\<rparr>"
  let ?data = "map (\<lambda>(i, p). \<lparr>oival_orderId = order_id ?order,
                                                 oival_productId = product_id p,
                                                 oival_quantity = item_quantity i,
                                                 oival_priceAtTime = product_price p,
                                                 oival_productName = product_name p\<rparr>) ?rows"
  have lines: "mset (map fst ?rows) = mset (cart_lines d ?cid)"
    by (rule cart_join_lines(1) [OF pk fk])
  from mset_eq_length [OF lines] have len: "length ?rows = length (cart_lines d ?cid)" by simp
  from lines have lines': "image_mset fst (mset ?rows) = mset (cart_lines d ?cid)" by simp
  with nonempty have ne: "?rows \<noteq> []" by auto
  have nofind: "find (\<lambda>(i, p). product_stockQuantity p < item_quantity i) ?rows = None"
    using stock by (auto simp: find_None_iff)
  have ins: "orders_insert (Some userId) (generateOrderNumber e) ?total pending (Some a) (now e) d
      = (Inr ?order, ?d1)"
    using fresh range counters(1) user by (simp add: orders_insert_def Let_def)
  have pos: "\<forall>v \<in> set ?data. 0 < oival_quantity v"
    using ck by (auto simp: cartItems_check_def cart_join_mem)
  then have noviol: "\<not> (\<exists>v \<in> set ?data. oival_quantity v \<le> 0)"
    by (meson not_le)
  have nofull: "\<not> 2147483647 < orderItems_seq ?d1 + int (length ?data) - 1"
    using counters(2) by (simp add: len)
  obtain d2 where items: "orderItems_insert ?data ?d1 = (None, d2)"
    and d2: "d2 = ?d1\<lparr>orderItems_seq := orderItems_seq d + int (length ?data),
                       orderItems := orderItems d @
                 map (\<lambda>(n, v). \<lparr>oitem_id = n, oitem_orderId = oival_orderId v,
                                  oitem_productId = Some (oival_productId v),
                                  oitem_quantity = oival_quantity v,
                                  oitem_priceAtTime = oival_priceAtTime v,
                                  oitem_productName = Some (oival_productName v)\<rparr>)
                     (number_from (orderItems_seq d) ?data)\<rparr>"
    unfolding orderItems_insert_def Let_def if_not_P [OF nofull] if_not_P [OF noviol] by simp
  have dist: "distinct (map (\<lambda>r. product_id (snd r)) ?rows)"
    by (rule cart_join_distinct [OF pk fk un])
  have enough: "\<forall>r \<in> set ?rows. item_quantity (fst r) \<le> product_stockQuantity (snd r)"
    using stock by auto
  let ?d3 = "d2\<lparr>products := map (stock_after ?rows) (products d2)\<rparr>"
  let ?d4 = "?d3\<lparr>orderStatusHistory := orderStatusHistory ?d3 @
                     [\<lparr>hist_id = orderStatusHistory_seq ?d3, hist_orderId = order_id ?order,
                       hist_status = pending, hist_notes = Some ''Order created'',
                       hist_createdAt = now e\<rparr>],
                   orderStatusHistory_seq := orderStatusHistory_seq ?d3 + 1\<rparr>"
  have dec: "decrement_stock ?rows d2 = (None, ?d3)"
    by (rule decrement_stock_ok [OF dist enough])
  have hist: "orderStatusHistory_insert (order_id ?order) pending ''Order created'' (now e) ?d3
      = (None, ?d4)"
    using counters(3) by (simp add: orderStatusHistory_insert_def d2)
  have prods: "map (stock_after ?rows) (products d) =
      map (\<lambda>p. p\<lparr>product_stockQuantity :=
                       product_stockQuantity p - quantity_in_cart d ?cid (product_id p)\<rparr>) (products d)"
    using stock_after_quantity_in_cart [OF pk fk un] by simp
  have run: "checkout e userId a d =
    (Json 201 (OrderBody
       \<lparr>ov_id = order_id ?order, ov_orderNumber = order_orderNumber ?order,
        ov_status = order_status ?order, ov_totalAmount = order_totalAmount ?order,
        ov_shippingAddress = Some a,
        ov_items = order_items_of e (cartItems_delete_cart ?cid ?d4) (order_id ?order),
        ov_statusHistory = status_history_of (cartItems_delete_cart ?cid ?d4) (order_id ?order),
        ov_createdAt = order_createdAt ?order\<rparr>),
     cartItems_delete_cart ?cid ?d4)"
    unfolding checkout_def using valid cart ne nofind ins items dec hist
    by (simp add: Let_def)
  show ?thesis
    unfolding run
    by (intro exI conjI, rule refl)
       (simp_all add: lines' prods d2 cartItems_delete_cart_def
          number_from_map case_prod_beta comp_def)
qed

theorem checkout_creates_order_witness:
  "http_status (fst (checkout (at_time 5 5678) 1 home shop_ready)) = 201
   \<and> map order_totalAmount (orders (snd (checkout (at_time 5 5678) 1 home shop_ready))) = [700, 3500]
   \<and> map order_status (orders (snd (checkout (at_time 5 5678) 1 home shop_ready))) = [pending, pending]
   \<and> map oitem_quantity (orderItems (snd (checkout (at_time 5 5678) 1 home shop_ready))) = [2, 3]
   \<and> map oitem_priceAtTime (orderItems (snd (checkout (at_time 5 5678) 1 home shop_ready))) = [1000, 500]
   \<and> map product_stockQuantity (products (snd (checkout (at_time 5 5678) 1 home shop_ready))) = [3, 0, 7]
   \<and> cartItems (snd (checkout (at_time 5 5678) 1 home shop_ready)) = []
   \<and> map hist_status (orderStatusHistory (snd (checkout (at_time 5 5678) 1 home shop_ready))) = [pending]"
proof -
  have h1: "checkoutSchema home" by (simp add: checkoutSchema_def home_def)
  have h2: "find (\<lambda>c. cart_userId c = Some 1) (carts shop_ready) = Some alice_cart"
    by (simp add: example_defs)
  have L: "cart_lines shop_ready (cart_id alice_cart) = [line 1 1 1 2, line 2 1 3 3]"
    by (simp add: cart_lines_def example_defs)
  have h3: "cart_lines shop_ready (cart_id alice_cart) \<noteq> []"
    by (simp add: L)
  have rows: "cart_join (at_time 5 5678) shop_ready (cart_id alice_cart) =
      [(line 1 1 1 2, product_A), (line 2 1 3 3, product_C)]"
    by (simp add: cart_join_def example_defs)
  have h4: "\<forall>(i, p) \<in> set (cart_join (at_time 5 5678) shop_ready (cart_id alice_cart)).
                  item_quantity i \<le> product_stockQuantity p"
    by (simp add: rows) (simp add: example_defs)
  have h5: "generateOrderNumber (at_time 5 5678) \<notin> set (map order_orderNumber (orders shop_ready))"
    by (simp add: generateOrderNumber_def example_defs)
  have hr: "numeric_10_2 (sum_list (map (\<lambda>(i, p). product_price p * item_quantity i)
                (cart_join (at_time 5 5678) shop_ready (cart_id alice_cart))))"
    by (simp add: rows) (simp add: numeric_10_2_def example_defs)
  have hc: "orders_seq shop_ready \<le> 2147483647"
    "orderItems_seq shop_ready + int (length (cart_lines shop_ready (cart_id alice_cart))) - 1
       \<le> 2147483647"
    "orderStatusHistory_seq shop_ready \<le> 2147483647"
    by (simp_all add: L) (simp_all add: example_defs)
  have hu: "1 \<in> set (map user_id (users shop_ready))" by (simp add: example_defs)
  have h6: "products_pk shop_ready" by (simp add: products_pk_def example_defs)
  have h7: "cartItems_fk_product shop_ready" by (simp add: cartItems_fk_product_def example_defs)
  have h8: "cartItems_unique shop_ready" by (simp add: cartItems_unique_def example_defs)
  have h9: "cartItems_check shop_ready" by (simp add: cartItems_check_def example_defs)
  from checkout_creates_order [OF h1 h2 h3 h4 h5 hr hc hu h6 h7 h8 h9]
  obtain view d' where run: "checkout (at_time 5 5678) 1 home shop_ready = (Json 201 (OrderBody view), d')"
    and o: "orders d' = orders shop_ready @
          [\<lparr>order_id = orders_seq shop_ready, order_userId = Some 1,
            order_orderNumber = generateOrderNumber (at_time 5 5678),
            order_totalAmount = sum_list (map (\<lambda>(i, p). product_price p * item_quantity i)
                            (cart_join (at_time 5 5678) shop_ready (cart_id alice_cart))),
            order_status = pending, order_shippingAddress = Some home,
            order_createdAt = now (at_time 5 5678), order_updatedAt = now (at_time 5 5678)\<rparr>]"
    and oi: "orderItems d' = orderItems shop_ready @
          map (\<lambda>(n, i, p). \<lparr>oitem_id = n, oitem_orderId = orders_seq shop_ready,
                              oitem_productId = Some (product_id p),
                              oitem_quantity = item_quantity i,
                              oitem_priceAtTime = product_price p,
                              oitem_productName = Some (product_name p)\<rparr>)
              (number_from (orderItems_seq shop_ready)
                 (cart_join (at_time 5 5678) shop_ready (cart_id alice_cart)))"
    and p: "products d' =
          map (\<lambda>p. p\<lparr>product_stockQuantity :=
                       product_stockQuantity p - quantity_in_cart shop_ready (cart_id alice_cart) (product_id p)\<rparr>)
              (products shop_ready)"
    and ci: "cartItems d' = filter (\<lambda>i. item_cartId i \<noteq> cart_id alice_cart) (cartItems shop_ready)"
    and h: "orderStatusHistory d' = orderStatusHistory shop_ready @
          [\<lparr>hist_id = orderStatusHistory_seq shop_ready, hist_orderId = orders_seq shop_ready,
            hist_status = pending, hist_notes = Some ''Order created'',
            hist_createdAt = now (at_time 5 5678)\<rparr>]"
    by blast
  show ?thesis
    unfolding run
    by (simp add: o oi p ci h rows) (simp add: quantity_in_cart_def cart_product_lines_alt cart_lines_def example_defs)
qed

text \<open>
  Two requests that meet the conditions of the claim and create no order: in the first
  the generated number is the number of an existing order; in the second the cart holds
  two of a product priced 99999999.99, the stock is 5, the number is fresh, and the total
  199999999.98 does not fit the column.
\<close>

theorem checkout_not_created_counterexample:
  "cart_join (at_time 5 1234) shop_ready 1 = [(line 1 1 1 2, product_A), (line 2 1 3 3, product_C)]
   \<and> map product_stockQuantity [product_A, product_C] = [5, 10]
   \<and> http_status (fst (checkout (at_time 5 1234) 1 home shop_ready)) = 500
   \<and> orders (snd (checkout (at_time 5 1234) 1 home shop_ready)) = orders shop_ready
   \<and> cartItems (snd (checkout (at_time 5 1234) 1 home shop_ready)) = cartItems shop_ready
   \<and> cart_join (at_time 5 5678) shop_dear 1 = [(line 1 1 4 2, product_D)]
   \<and> product_stockQuantity product_D = 5
   \<and> numeric_10_2 (product_price product_D)
   \<and> generateOrderNumber (at_time 5 5678) \<notin> set (map order_orderNumber (orders shop_dear))
   \<and> http_status (fst (checkout (at_time 5 5678) 1 home shop_dear)) = 500
   \<and> orders (snd (checkout (at_time 5 5678) 1 home shop_dear)) = orders shop_dear
   \<and> cartItems (snd (checkout (at_time 5 5678) 1 home shop_dear)) = cartItems shop_dear"
  by (simp add: checkout_def checkoutSchema_def cart_join_def generateOrderNumber_def
        orders_insert_def errorHandler_def numeric_10_2_def Let_def example_defs)

text \<open>
  C6 (amended). When the generated order number is the number of an existing order, the
  insert of the order violates the unique constraint; checkout does not retry and does not
  answer with a conflict: the error reaches the error handler, the answer is 500, and no
  table has changed (no order, order line or status row is written, stock and cart are as
  before).
\<close>

theorem checkout_collision_is_internal_error:
  assumes valid: "checkoutSchema a"
    and cart: "find (\<lambda>c. cart_userId c = Some userId) (carts d) = Some cart"
    and nonempty: "cart_join e d (cart_id cart) \<noteq> []"
    and stock: "\<forall>(i, p) \<in> set (cart_join e d (cart_id cart)).
                  item_quantity i \<le> product_stockQuantity p"
    and clash: "generateOrderNumber e \<in> set (map order_orderNumber (orders d))"
  shows "fst (checkout e userId a d) = JsonError 500 InternalServerError
    \<and> orders (snd (checkout e userId a d)) = orders d
    \<and> orderItems (snd (checkout e userId a d)) = orderItems d
    \<and> orderStatusHistory (snd (checkout e userId a d)) = orderStatusHistory d
    \<and> products (snd (checkout e userId a d)) = products d
    \<and> carts (snd (checkout e userId a d)) = carts d
    \<and> cartItems (snd (checkout e userId a d)) = cartItems d"
proof -
  have nofind: "find (\<lambda>(i, p). product_stockQuantity p < item_quantity i)
                  (cart_join e d (cart_id cart)) = None"
    using stock by (auto simp: find_None_iff)
  have "checkout e userId a d = (JsonError 500 InternalServerError, d)
      \<or> checkout e userId a d =
           (JsonError 500 InternalServerError, d\<lparr>orders_seq := orders_seq d + 1\<rparr>)"
    unfolding checkout_def using valid cart nonempty nofind clash
    by (simp add: orders_insert_def errorHandler_def Let_def)
  then show ?thesis by auto
qed

theorem checkout_collision_is_internal_error_witness:
  "fst (checkout (at_time 5 1234) 1 home shop_ready) = JsonError 500 InternalServerError
   \<and> orders (snd (checkout (at_time 5 1234) 1 home shop_ready)) = [old_order]
   \<and> orderItems (snd (checkout (at_time 5 1234) 1 home shop_ready)) = []
   \<and> map product_stockQuantity (products (snd (checkout (at_time 5 1234) 1 home shop_ready))) = [5, 0, 10]"
proof -
  have h1: "checkoutSchema home" by (simp add: checkoutSchema_def home_def)
  have h2: "find (\<lambda>c. cart_userId c = Some 1) (carts shop_ready) = Some alice_cart"
    by (simp add: example_defs)
  have rows: "cart_join (at_time 5 1234) shop_ready (cart_id alice_cart) =
      [(line 1 1 1 2, product_A), (line 2 1 3 3, product_C)]"
    by (simp add: cart_join_def example_defs)
  have h3: "cart_join (at_time 5 1234) shop_ready (cart_id alice_cart) \<noteq> []" by (simp add: rows)
  have h4: "\<forall>(i, p) \<in> set (cart_join (at_time 5 1234) shop_ready (cart_id alice_cart)).
                  item_quantity i \<le> product_stockQuantity p"
    by (simp add: rows) (simp add: example_defs)
  have h5: "generateOrderNumber (at_time 5 1234) \<in> set (map order_orderNumber (orders shop_ready))"
    by (simp add: generateOrderNumber_def example_defs)
  from checkout_collision_is_internal_error [OF h1 h2 h3 h4 h5]
  show ?thesis by (simp add: example_defs)
qed

theorem checkout_no_retry_no_conflict_counterexample:
  "generateOrderNumber (at_time 5 1234) = order_orderNumber old_order
   \<and> orders shop_ready = [old_order]
   \<and> fst (checkout (at_time 5 1234) 1 home shop_ready) = JsonError 500 InternalServerError
   \<and> http_status (fst (checkout (at_time 5 1234) 1 home shop_ready)) \<noteq> 409
   \<and> length (orders (snd (checkout (at_time 5 1234) 1 home shop_ready))) = 1"
  by (simp add: checkout_def checkoutSchema_def cart_join_def generateOrderNumber_def
        orders_insert_def errorHandler_def Let_def example_defs)

section \<open>Order history\<close>

text \<open>
  C7 (amended). Reading an order, or its status history, that exists and belongs to another
  user is answered with 403 \<open>Forbidden: Access denied\<close>; 404 \<open>Order not found\<close> is
  the answer only when no order has the id. The two answers differ.
\<close>

theorem foreign_order_is_forbidden:
  assumes "1 \<le> oid"
  shows "(\<forall>order. find (\<lambda>r. order_id r = oid) (orders d) = Some order
              \<and> order_userId order \<noteq> Some userId \<longrightarrow>
            get_order userId oid d = JsonError 403 ForbiddenAccessDenied
            \<and> get_order_status userId oid d = JsonError 403 ForbiddenAccessDenied)
    \<and> (find (\<lambda>r. order_id r = oid) (orders d) = None \<longrightarrow>
            get_order userId oid d = JsonError 404 OrderNotFound
            \<and> get_order_status userId oid d = JsonError 404 OrderNotFound)"
  using assms by (simp add: get_order_def get_order_status_def)

theorem foreign_order_is_forbidden_witness:
  "get_order 1 1 shop_ready = JsonError 403 ForbiddenAccessDenied
   \<and> get_order_status 1 1 shop_ready = JsonError 403 ForbiddenAccessDenied
   \<and> get_order 1 7 shop_ready = JsonError 404 OrderNotFound
   \<and> get_order_status 1 7 shop_ready = JsonError 404 OrderNotFound"
proof -
  have h1: "(1::int) \<le> 1" "(1::int) \<le> 7" by simp_all
  have h2: "find (\<lambda>r. order_id r = 1) (orders shop_ready) = Some old_order"
    by (simp add: example_defs)
  have h3: "order_userId old_order \<noteq> Some 1" by (simp add: old_order_def)
  have h4: "find (\<lambda>r. order_id r = 7) (orders shop_ready) = None"
    by (simp add: example_defs)
  from foreign_order_is_forbidden [OF h1(1), of shop_ready 1] h2 h3
  have a: "get_order 1 1 shop_ready = JsonError 403 ForbiddenAccessDenied
   \<and> get_order_status 1 1 shop_ready = JsonError 403 ForbiddenAccessDenied" by simp
  from foreign_order_is_forbidden [OF h1(2), of shop_ready 1] h4
  have b: "get_order 1 7 shop_ready = JsonError 404 OrderNotFound
   \<and> get_order_status 1 7 shop_ready = JsonError 404 OrderNotFound" by simp
  from a b show ?thesis by simp
qed

theorem foreign_order_not_found_counterexample:
  "find (\<lambda>r. order_id r = 1) (orders shop_ready) = Some old_order
   \<and> order_userId old_order = Some 2
   \<and> get_order 1 1 shop_ready \<noteq> JsonError 404 OrderNotFound
   \<and> http_status (get_order 1 1 shop_ready) = 403
   \<and> http_status (get_order_status 1 1 shop_ready) = 403
   \<and> http_status (get_order 1 7 shop_ready) = 404"
  by (simp add: get_order_def get_order_status_def example_defs)

section \<open>Cart lines\<close>

text \<open>
  C3. Adding \<open>quantity\<close> of a product to a cart that holds a line \<open>l\<close> for it succeeds
  if and only if the sum of the two quantities is at most the stock of the product. On
  success the quantity of the existing line becomes the sum and no line is added.
  Otherwise the answer is 400 with an insufficient-stock text and the cart is unchanged:
  its lines, the products, the view of the cart and the id and identity of every cart row
  are as before. The product id and the stock are values of \<open>integer\<close> columns.
\<close>

theorem add_item_existing_line:
  assumes valid: "0 < productId" "1 \<le> quantity"
    and product: "find (\<lambda>p. product_id p = productId) (products d) = Some product"
    and cart: "find_cart (auth_user c) (session_of e c) d = Some cart"
    and line: "find (\<lambda>i. item_cartId i = cart_id cart \<and> item_productId i = productId)
                 (cartItems d) = Some l"
    and pos: "0 < item_quantity l"
    and typed: "int4 productId" "int4 (product_stockQuantity product)"
  shows "(item_quantity l + quantity \<le> product_stockQuantity product \<longrightarrow>
            (\<exists>view. fst (add_item e c productId quantity d) = Json 200 (CartBody view))
            \<and> cartItems (snd (add_item e c productId quantity d)) =
                map (\<lambda>i. if item_id i = item_id l
                         then i\<lparr>item_quantity := item_quantity l + quantity,
                                item_updatedAt := now e\<rparr>
                         else i) (cartItems d))
    \<and> (product_stockQuantity product < item_quantity l + quantity \<longrightarrow>
            fst (add_item e c productId quantity d) =
              JsonError 400 (if product_stockQuantity product < quantity
                             then InsufficientStock else InsufficientStockUpdated)
            \<and> cartItems (snd (add_item e c productId quantity d)) = cartItems d
            \<and> products (snd (add_item e c productId quantity d)) = products d
            \<and> buildCartResponse e (cart_id cart) (snd (add_item e c productId quantity d))
                = buildCartResponse e (cart_id cart) d
            \<and> map cart_id (carts (snd (add_item e c productId quantity d))) = map cart_id (carts d)
            \<and> map cart_userId (carts (snd (add_item e c productId quantity d))) = map cart_userId (carts d)
            \<and> map cart_sessionId (carts (snd (add_item e c productId quantity d))) = map cart_sessionId (carts d))"
proof -
  let ?d1 = "carts_touch (cart_id cart) (getExpirationDate e) (now e) d"
  have goc: "getOrCreateCart e c d = (Inr (cart_id cart, cart_userId cart), ?d1)"
    using cart by (simp add: getOrCreateCart_def Let_def)
  have items: "cartItems ?d1 = cartItems d" "products ?d1 = products d"
    by (simp_all add: carts_touch_def)
  have ids: "map cart_id (carts ?d1) = map cart_id (carts d)"
     "map cart_userId (carts ?d1) = map cart_userId (carts d)"
     "map cart_sessionId (carts ?d1) = map cart_sessionId (carts d)"
    by (simp_all add: carts_touch_def comp_def)
  have view: "buildCartResponse e (cart_id cart) ?d1 = buildCartResponse e (cart_id cart) d"
    by (simp add: buildCartResponse_def cart_join_def left_join_images_def carts_touch_def)
  have ok: "item_quantity l + quantity \<le> product_stockQuantity product \<longrightarrow>
            (\<exists>view. fst (add_item e c productId quantity d) = Json 200 (CartBody view))
            \<and> cartItems (snd (add_item e c productId quantity d)) =
                map (\<lambda>i. if item_id i = item_id l
                         then i\<lparr>item_quantity := item_quantity l + quantity,
                                item_updatedAt := now e\<rparr>
                         else i) (cartItems d)"
    using valid product line pos typed
    by (simp add: add_item_def goc items cartItems_set_quantity_def int4_def Let_def)
  have first: "add_item e c productId quantity d = (JsonError 400 InsufficientStock, d)"
    if "product_stockQuantity product < quantity"
    using that valid product typed by (simp add: add_item_def)
  have second: "add_item e c productId quantity d = (JsonError 400 InsufficientStockUpdated, ?d1)"
    if "\<not> product_stockQuantity product < quantity"
      "product_stockQuantity product < item_quantity l + quantity"
    using that valid product line typed by (simp add: add_item_def goc items Let_def)
  have no: "product_stockQuantity product < item_quantity l + quantity \<longrightarrow>
            fst (add_item e c productId quantity d) =
              JsonError 400 (if product_stockQuantity product < quantity
                             then InsufficientStock else InsufficientStockUpdated)
            \<and> cartItems (snd (add_item e c productId quantity d)) = cartItems d
            \<and> products (snd (add_item e c productId quantity d)) = products d
            \<and> buildCartResponse e (cart_id cart) (snd (add_item e c productId quantity d))
                = buildCartResponse e (cart_id cart) d
            \<and> map cart_id (carts (snd (add_item e c productId quantity d))) = map cart_id (carts d)
            \<and> map cart_userId (carts (snd (add_item e c productId quantity d))) = map cart_userId (carts d)
            \<and> map cart_sessionId (carts (snd (add_item e c productId quantity d))) = map cart_sessionId (carts d)"
  proof (cases "product_stockQuantity product < quantity")
    case True
    from first [OF True] True show ?thesis by simp
  next
    case False
    show ?thesis
    proof
      assume "product_stockQuantity product < item_quantity l + quantity"
      from second [OF False this] False show "fst (add_item e c productId quantity d) =
              JsonError 400 (if product_stockQuantity product < quantity
                             then InsufficientStock else InsufficientStockUpdated)
            \<and> cartItems (snd (add_item e c productId quantity d)) = cartItems d
            \<and> products (snd (add_item e c productId quantity d)) = products d
            \<and> buildCartResponse e (cart_id cart) (snd (add_item e c productId quantity d))
                = buildCartResponse e (cart_id cart) d
            \<and> map cart_id (carts (snd (add_item e c productId quantity d))) = map cart_id (carts d)
            \<and> map cart_userId (carts (snd (add_item e c productId quantity d))) = map cart_userId (carts d)
            \<and> map cart_sessionId (carts (snd (add_item e c productId quantity d))) = map cart_sessionId (carts d)"
        by (simp add: items ids view)
    qed
  qed
  from ok no show ?thesis by (rule conjI)
qed

theorem add_item_existing_line_witness:
  "(\<exists>view. fst (add_item (at_time 5 1) alice_caller 1 3 shop_one) = Json 200 (CartBody view))
   \<and> map item_quantity (cartItems (snd (add_item (at_time 5 1) alice_caller 1 3 shop_one))) = [5]
   \<and> fst (add_item (at_time 5 1) alice_caller 1 4 shop_one) = JsonError 400 InsufficientStockUpdated
   \<and> fst (add_item (at_time 5 1) alice_caller 1 6 shop_one) = JsonError 400 InsufficientStock
   \<and> cartItems (snd (add_item (at_time 5 1) alice_caller 1 4 shop_one)) = cartItems shop_one
   \<and> cartItems (snd (add_item (at_time 5 1) alice_caller 1 6 shop_one)) = cartItems shop_one
   \<and> buildCartResponse (at_time 5 1) 1 (snd (add_item (at_time 5 1) alice_caller 1 4 shop_one))
       = buildCartResponse (at_time 5 1) 1 shop_one"
proof -
  have h1: "(0::int) < 1" by simp
  have h2: "(1::int) \<le> 3" "(1::int) \<le> 4" "(1::int) \<le> 6" by simp_all
  have h3: "find (\<lambda>p. product_id p = 1) (products shop_one) = Some product_A"
    by (simp add: example_defs)
  have h4: "find_cart (auth_user alice_caller) (session_of (at_time 5 1) alice_caller) shop_one
              = Some alice_cart"
    by (simp add: find_cart_def truthy_number_def example_defs)
  have h5: "find (\<lambda>i. item_cartId i = cart_id alice_cart \<and> item_productId i = 1)
              (cartItems shop_one) = Some (line 1 1 1 2)"
    by (simp add: example_defs)
  have h6: "0 < item_quantity (line 1 1 1 2)" by (simp add: line_def)
  have h7: "int4 1" "int4 (product_stockQuantity product_A)"
    by (simp_all add: int4_def product_A_def)
  have q: "item_quantity (line 1 1 1 2) = 2" "product_stockQuantity product_A = 5"
    "item_id (line 1 1 1 2) = 1" "cart_id alice_cart = 1"
    by (simp_all add: example_defs)
  from add_item_existing_line [OF h1 h2(1) h3 h4 h5 h6 h7]
  have a: "(\<exists>view. fst (add_item (at_time 5 1) alice_caller 1 3 shop_one) = Json 200 (CartBody view))
    \<and> cartItems (snd (add_item (at_time 5 1) alice_caller 1 3 shop_one)) =
        map (\<lambda>i. if item_id i = 1
                 then i\<lparr>item_quantity := 5, item_updatedAt := now (at_time 5 1)\<rparr> else i)
            (cartItems shop_one)"
    by (simp add: q)
  from add_item_existing_line [OF h1 h2(2) h3 h4 h5 h6 h7]
  have b: "fst (add_item (at_time 5 1) alice_caller 1 4 shop_one) = JsonError 400 InsufficientStockUpdated
    \<and> cartItems (snd (add_item (at_time 5 1) alice_caller 1 4 shop_one)) = cartItems shop_one
    \<and> buildCartResponse (at_time 5 1) 1 (snd (add_item (at_time 5 1) alice_caller 1 4 shop_one))
       = buildCartResponse (at_time 5 1) 1 shop_one"
    by (simp add: q)
  from add_item_existing_line [OF h1 h2(3) h3 h4 h5 h6 h7]
  have c: "fst (add_item (at_time 5 1) alice_caller 1 6 shop_one) = JsonError 400 InsufficientStock
    \<and> cartItems (snd (add_item (at_time 5 1) alice_caller 1 6 shop_one)) = cartItems shop_one"
    by (simp add: q)
  have ev: "map item_quantity (map (\<lambda>i. if item_id i = 1
                 then i\<lparr>item_quantity := 5, item_updatedAt := now (at_time 5 1)\<rparr> else i)
            (cartItems shop_one)) = [5]"
    by (simp add: example_defs)
  from a b c ev show ?thesis by simp
qed







section \<open>Login and cart merge\<close>

text \<open>
  C4 (amended). A login with valid credentials and a session token of a guest cart that
  has lines, on a store that does not fail of its own accord, when every sum of a guest line's
  quantity and the quantity the user's cart holds of the product is in the range of the
  \<open>integer\<close> column and the counters of carts and cart lines are not exhausted: for
  every guest line the user's cart (found or inserted) ends with exactly one line for the
  product, whose quantity is the sum of the quantity of the user's line and of the guest
  line when the user's cart had a line for the product, and the quantity of the guest
  line otherwise; the user's lines for other products are as before; and afterwards no
  line and no row of the guest cart exist. The constraints of the schema on carts and
  cart lines are assumed of the store.
\<close>

theorem login_merges_guest_cart:
  assumes user: "find (\<lambda>x. user_email x = login_email r) (users d) = Some u"
    and pw: "cmp (login_password r) (user_passwordHash u)"
    and sid: "truthy_string (request_sessionId r)"
    and guest: "find (\<lambda>c. cart_sessionId c = request_sessionId r \<and> cart_userId c = None)
                  (carts d) = Some g"
    and lines: "cart_lines d (cart_id g) \<noteq> []"
    and fit: "\<forall>gl \<in> set (cart_lines d (cart_id g)).
                quantity_in_cart d (user_cart_id d u) (item_productId gl) + item_quantity gl
                  \<le> 2147483647"
    and counters: "cartItems_seq d + int (length (cart_lines d (cart_id g))) - 1 \<le> 2147483647"
      "carts_seq d \<le> 2147483647"
    and wf: "wf_items d" and cpk: "carts_pk d" and cser: "carts_serial d"
  shows "\<exists>d'. login cmp None e r d =
           (Json 200 (LoginBody
              \<lparr>tok_sub = js_String (user_id u), tok_email = user_email u, tok_role = user_role u\<rparr>
              \<lparr>uv_id = user_id u, uv_email = user_email u, uv_fullName = user_fullName u,
               uv_phone = user_phone u, uv_role = user_role u\<rparr>), d')
    \<and> (\<forall>gl \<in> set (cart_lines d (cart_id g)). \<exists>l'.
          cart_product_lines d' (user_cart_id d u) (item_productId gl) = [l']
          \<and> item_quantity l' =
              (case find (\<lambda>i. item_cartId i = user_cart_id d u
                              \<and> item_productId i = item_productId gl) (cartItems d) of
                 Some ul \<Rightarrow> item_quantity ul + item_quantity gl
               | None \<Rightarrow> item_quantity gl))
    \<and> (\<forall>p. p \<notin> item_productId ` set (cart_lines d (cart_id g)) \<longrightarrow>
          cart_product_lines d' (user_cart_id d u) p = cart_product_lines d (user_cart_id d u) p)
    \<and> cart_lines d' (cart_id g) = []
    \<and> cart_id g \<notin> cart_id ` set (carts d')
    \<and> (\<exists>uc \<in> set (carts d'). cart_id uc = user_cart_id d u
          \<and> cart_userId uc = Some (user_id u))"
proof -
  let ?gid = "cart_id g"
  let ?ucid = "user_cart_id d u"
  let ?G = "cart_lines d ?gid"
  from guest have g: "g \<in> set (carts d)" "cart_userId g = None"
    by (auto simp: find_Some_iff)
  from wf have un: "cartItems_unique d" by (simp add: wf_items_def)
  have qfind: "quantity_in_cart d ?ucid p + q =
      (case find (\<lambda>i. item_cartId i = ?ucid \<and> item_productId i = p) (cartItems d) of
                 Some ul \<Rightarrow> item_quantity ul + q | None \<Rightarrow> q)" for p q
    by (simp add: quantity_in_cart_find [OF un] split: option.splits)
  have G: "filter (\<lambda>i. item_cartId i = ?gid) (cartItems d) = ?G" by (simp add: cart_lines_def)
  let ?S = "sort_key (\<lambda>i. scan_rank e [item_id i]) ?G"
  have S: "mset ?S = mset ?G" by simp
  from lines have Sne: "?S \<noteq> []" by (metis length_0_conv length_sort)
  from counters(1) have seq: "cartItems_seq d + int (length ?G) \<le> 2147483648" by simp
  from user have umem: "user_id u \<in> set (map user_id (users d))"
    by (auto simp: find_Some_iff)
  show ?thesis
  proof (cases "find (\<lambda>c. cart_userId c = Some (user_id u)) (carts d)")
    case (Some uc)
    then have uc: "uc \<in> set (carts d)" "cart_userId uc = Some (user_id u)"
      by (auto simp: find_Some_iff)
    from Some have ucid: "?ucid = cart_id uc" by (simp add: user_cart_id_def)
    from uc g have "uc \<noteq> g" by auto
    with cpk uc(1) g(1) have ne: "?ucid \<noteq> ?gid"
      unfolding ucid by (auto simp: carts_pk_def distinct_map dest: inj_onD)
    from merge_into_ok [OF wf ne S fit seq, of e] obtain d' where
      run: "merge_into None e ?ucid ?gid ?S d = (None, d')"
      and cs: "carts d' = filter (\<lambda>c. cart_id c \<noteq> ?gid) (carts d)"
      and gone: "cart_lines d' ?gid = []"
      and other: "\<forall>p. p \<notin> item_productId ` set ?G \<longrightarrow>
            cart_product_lines d' ?ucid p = cart_product_lines d ?ucid p"
      and merged: "\<forall>gl \<in> set ?G. \<exists>l'.
            cart_product_lines d' ?ucid (item_productId gl) = [l']
            \<and> item_quantity l' = quantity_in_cart d ?ucid (item_productId gl) + item_quantity gl"
      by blast
    have mg: "merge_guest_cart None e (request_sessionId r) u d = (None, d')"
      using sid guest Sne Some run
      by (simp add: merge_guest_cart_def fails_def tick_def G ucid Let_def)
    have lg: "login cmp None e r d =
           (Json 200 (LoginBody
              \<lparr>tok_sub = js_String (user_id u), tok_email = user_email u, tok_role = user_role u\<rparr>
              \<lparr>uv_id = user_id u, uv_email = user_email u, uv_fullName = user_fullName u,
               uv_phone = user_phone u, uv_role = user_role u\<rparr>), d')"
      using user pw mg by (simp add: login_def fails_def tick_def)
    show ?thesis
    proof (intro exI [of _ d'] conjI)
      show "login cmp None e r d =
           (Json 200 (LoginBody
              \<lparr>tok_sub = js_String (user_id u), tok_email = user_email u, tok_role = user_role u\<rparr>
              \<lparr>uv_id = user_id u, uv_email = user_email u, uv_fullName = user_fullName u,
               uv_phone = user_phone u, uv_role = user_role u\<rparr>), d')" by (rule lg)
      show "\<forall>gl \<in> set ?G. \<exists>l'.
          cart_product_lines d' ?ucid (item_productId gl) = [l']
          \<and> item_quantity l' =
              (case find (\<lambda>i. item_cartId i = ?ucid
                              \<and> item_productId i = item_productId gl) (cartItems d) of
                 Some ul \<Rightarrow> item_quantity ul + item_quantity gl
               | None \<Rightarrow> item_quantity gl)"
        using merged by (simp only: qfind)
      show "\<forall>p. p \<notin> item_productId ` set ?G \<longrightarrow>
          cart_product_lines d' ?ucid p = cart_product_lines d ?ucid p" by (rule other)
      show "cart_lines d' ?gid = []" by (rule gone)
      show "?gid \<notin> cart_id ` set (carts d')" by (auto simp: cs)
      show "\<exists>c \<in> set (carts d'). cart_id c = ?ucid \<and> cart_userId c = Some (user_id u)"
        using uc ne by (auto simp: cs ucid intro!: bexI [of _ uc])
    qed
  next
    case None
    let ?new = "\<lparr>cart_id = carts_seq d, cart_userId = Some (user_id u), cart_sessionId = None,
                 cart_expiresAt = Some (now e + 7 * 24 * 60 * 60 * 1000), cart_updatedAt = now e\<rparr>"
    let ?d0 = "d\<lparr>carts_seq := carts_seq d + 1, carts := carts d @ [?new]\<rparr>"
    from None have ucid: "?ucid = carts_seq d" by (simp add: user_cart_id_def)
    from cser g(1) have ne: "?ucid \<noteq> ?gid"
      unfolding ucid by (auto simp: carts_serial_def)
    have wf0: "wf_items ?d0" using wf by (simp only: wf_items_carts_insert)
    have same: "cart_lines ?d0 ?gid = ?G"
      "\<And>c p. cart_product_lines ?d0 c p = cart_product_lines d c p"
      "\<And>c p. quantity_in_cart ?d0 c p = quantity_in_cart d c p"
      by (simp_all add: cart_lines_def cart_product_lines_def quantity_in_cart_def)
    have S0: "mset ?S = mset (cart_lines ?d0 ?gid)" by (simp only: same S)
    have fit0: "\<forall>gl \<in> set (cart_lines ?d0 ?gid).
                quantity_in_cart ?d0 ?ucid (item_productId gl) + item_quantity gl \<le> 2147483647"
      using fit by (simp only: same)
    have seq0: "cartItems_seq ?d0 + int (length (cart_lines ?d0 ?gid)) \<le> 2147483648"
      using seq by (simp only: same) simp
    from merge_into_ok [OF wf0 ne S0 fit0 seq0, of e] obtain d' where
      run: "merge_into None e ?ucid ?gid ?S ?d0 = (None, d')"
      and cs: "carts d' = filter (\<lambda>c. cart_id c \<noteq> ?gid) (carts ?d0)"
      and gone: "cart_lines d' ?gid = []"
      and other: "\<forall>p. p \<notin> item_productId ` set ?G \<longrightarrow>
            cart_product_lines d' ?ucid p = cart_product_lines d ?ucid p"
      and merged: "\<forall>gl \<in> set ?G. \<exists>l'.
            cart_product_lines d' ?ucid (item_productId gl) = [l']
            \<and> item_quantity l' = quantity_in_cart d ?ucid (item_productId gl) + item_quantity gl"
      unfolding same by blast
    have mg: "merge_guest_cart None e (request_sessionId r) u d = (None, d')"
      using sid guest Sne None run counters(2) umem
      by (simp add: merge_guest_cart_def fails_def tick_def G ucid Let_def carts_insert_def)
    have lg: "login cmp None e r d =
           (Json 200 (LoginBody
              \<lparr>tok_sub = js_String (user_id u), tok_email = user_email u, tok_role = user_role u\<rparr>
              \<lparr>uv_id = user_id u, uv_email = user_email u, uv_fullName = user_fullName u,
               uv_phone = user_phone u, uv_role = user_role u\<rparr>), d')"
      using user pw mg by (simp add: login_def fails_def tick_def)
    show ?thesis
    proof (intro exI [of _ d'] conjI)
      show "login cmp None e r d =
           (Json 200 (LoginBody
              \<lparr>tok_sub = js_String (user_id u), tok_email = user_email u, tok_role = user_role u\<rparr>
              \<lparr>uv_id = user_id u, uv_email = user_email u, uv_fullName = user_fullName u,
               uv_phone = user_phone u, uv_role = user_role u\<rparr>), d')" by (rule lg)
      show "\<forall>gl \<in> set ?G. \<exists>l'.
          cart_product_lines d' ?ucid (item_productId gl) = [l']
          \<and> item_quantity l' =
              (case find (\<lambda>i. item_cartId i = ?ucid
                              \<and> item_productId i = item_productId gl) (cartItems d) of
                 Some ul \<Rightarrow> item_quantity ul + item_quantity gl
               | None \<Rightarrow> item_quantity gl)"
        using merged by (simp only: qfind)
      show "\<forall>p. p \<notin> item_productId ` set ?G \<longrightarrow>
          cart_product_lines d' ?ucid p = cart_product_lines d ?ucid p" by (rule other)
      show "cart_lines d' ?gid = []" by (rule gone)
      show "?gid \<notin> cart_id ` set (carts d')" by (auto simp: cs)
      show "\<exists>c \<in> set (carts d'). cart_id c = ?ucid \<and> cart_userId c = Some (user_id u)"
        using ne by (auto simp: cs ucid)
    qed
  qed
qed

theorem login_merges_guest_cart_witness:
  "http_status (fst (login check_hash None (at_time 5 1) alice_login shop_two)) = 200
   \<and> map item_quantity
        (cart_product_lines (snd (login check_hash None (at_time 5 1) alice_login shop_two)) 1 1) = [5]
   \<and> map item_quantity
        (cart_product_lines (snd (login check_hash None (at_time 5 1) alice_login shop_two)) 1 3) = [1]
   \<and> cart_product_lines (snd (login check_hash None (at_time 5 1) alice_login shop_two)) 1 2 = []
   \<and> cart_lines (snd (login check_hash None (at_time 5 1) alice_login shop_two)) 2 = []
   \<and> 2 \<notin> cart_id ` set (carts (snd (login check_hash None (at_time 5 1) alice_login shop_two)))"
proof -
  have h1: "find (\<lambda>x. user_email x = login_email alice_login) (users shop_two) = Some alice"
    by (simp add: example_defs)
  have h2: "check_hash (login_password alice_login) (user_passwordHash alice)"
    by (simp add: example_defs)
  have h3: "truthy_string (request_sessionId alice_login)"
    by (simp add: request_sessionId_def truthy_string_def example_defs)
  have h4: "find (\<lambda>c. cart_sessionId c = request_sessionId alice_login \<and> cart_userId c = None)
                  (carts shop_two) = Some guest_cart"
    by (simp add: request_sessionId_def truthy_string_def example_defs)
  have G: "cart_lines shop_two (cart_id guest_cart) = [line 2 2 1 3, line 3 2 3 1]"
    by (simp add: cart_lines_def example_defs)
  then have h5: "cart_lines shop_two (cart_id guest_cart) \<noteq> []" by simp
  have h6: "wf_items shop_two"
    by (simp add: wf_items_def cartItems_pk_def cartItems_serial_def cartItems_unique_def
          cartItems_check_def example_defs)
  have h7: "carts_pk shop_two" by (simp add: carts_pk_def example_defs)
  have h8: "carts_serial shop_two" by (simp add: carts_serial_def example_defs)
  have uc: "user_cart_id shop_two alice = 1" by (simp add: user_cart_id_def example_defs)
  have hf: "\<forall>gl \<in> set (cart_lines shop_two (cart_id guest_cart)).
                quantity_in_cart shop_two (user_cart_id shop_two alice) (item_productId gl)
                  + item_quantity gl \<le> 2147483647"
    by (simp add: G uc) (simp add: quantity_in_cart_def cart_product_lines_def example_defs)
  have hc: "cartItems_seq shop_two + int (length (cart_lines shop_two (cart_id guest_cart))) - 1
              \<le> 2147483647"
    "carts_seq shop_two \<le> 2147483647"
    by (simp_all add: G) (simp_all add: example_defs)
  have f1: "find (\<lambda>i. item_cartId i = 1 \<and> item_productId i = 1) (cartItems shop_two)
              = Some (line 1 1 1 2)"
    and f3: "find (\<lambda>i. item_cartId i = 1 \<and> item_productId i = 3) (cartItems shop_two) = None"
    by (simp_all add: example_defs)
  from login_merges_guest_cart [where cmp = check_hash and e = "at_time 5 1",
         OF h1 h2 h3 h4 h5 hf hc h6 h7 h8] obtain d' where
    run: "snd (login check_hash None (at_time 5 1) alice_login shop_two) = d'"
      "http_status (fst (login check_hash None (at_time 5 1) alice_login shop_two)) = 200"
    and merged: "\<forall>gl \<in> set [line 2 2 1 3, line 3 2 3 1]. \<exists>l'.
          cart_product_lines d' 1 (item_productId gl) = [l']
          \<and> item_quantity l' =
              (case find (\<lambda>i. item_cartId i = 1
                              \<and> item_productId i = item_productId gl) (cartItems shop_two) of
                 Some ul \<Rightarrow> item_quantity ul + item_quantity gl
               | None \<Rightarrow> item_quantity gl)"
    and other: "\<forall>p. p \<notin> item_productId ` set [line 2 2 1 3, line 3 2 3 1] \<longrightarrow>
          cart_product_lines d' 1 p = cart_product_lines shop_two 1 p"
    and gone: "cart_lines d' (cart_id guest_cart) = []"
      "cart_id guest_cart \<notin> cart_id ` set (carts d')"
    unfolding G uc by auto
  from merged f1 f3 have "map item_quantity (cart_product_lines d' 1 1) = [5]"
    "map item_quantity (cart_product_lines d' 1 3) = [1]"
    by (auto simp: line_def)
  moreover from other have "cart_product_lines d' 1 2 = []"
    by (simp add: cart_product_lines_def example_defs)
  ultimately show ?thesis using run gone by (simp add: guest_cart_def)
qed

text \<open>
  A login that meets the conditions of the claim and merges nothing: the user's cart
  holds 2147483647 of product A, the guest cart holds 3 of it; the update of the line to
  the sum is rejected by the store, the login is answered 500 and both carts are as
  before.
\<close>

theorem login_merge_overflow_counterexample:
  "find (\<lambda>x. user_email x = login_email alice_login) (users shop_full) = Some alice
   \<and> check_hash (login_password alice_login) (user_passwordHash alice)
   \<and> find (\<lambda>c. cart_sessionId c = request_sessionId alice_login \<and> cart_userId c = None)
         (carts shop_full) = Some guest_cart
   \<and> cart_lines shop_full (cart_id guest_cart) = [line 2 2 1 3]
   \<and> cart_product_lines shop_full 1 1 = [line 1 1 1 2147483647]
   \<and> fst (login check_hash None (at_time 5 1) alice_login shop_full)
       = JsonError 500 InternalServerError
   \<and> cartItems (snd (login check_hash None (at_time 5 1) alice_login shop_full))
       = cartItems shop_full
   \<and> carts (snd (login check_hash None (at_time 5 1) alice_login shop_full)) = carts shop_full"
  by (simp add: login_def merge_guest_cart_def merge_into_def fails_def tick_def
        request_sessionId_def truthy_string_def cartItems_set_quantity_def int4_def
        cart_lines_def cart_product_lines_def errorHandler_def Let_def example_defs)

text \<open>
  C5 (amended). A login with valid credentials in which a statement of the merge block
  raises an error is aborted: the error leaves the handler, reaches the error handler, and
  the client is answered 500 without a token. The statements of a request are numbered
  from 0, the lookup of the user being statement 0 and those of the merge block following.
\<close>

theorem login_aborted_by_merge_error:
  assumes user: "find (\<lambda>x. user_email x = login_email r) (users d) = Some u"
    and pw: "cmp (login_password r) (user_passwordHash u)"
    and k: "0 < k" "k \<le> merge_statements (request_sessionId r) u d"
  shows "fst (login cmp (Some k) e r d) = JsonError 500 InternalServerError"
proof -
  from k have t: "tick (Some k) = Some (k - 1)" "\<not> fails (Some k)"
    by (auto simp: tick_def fails_def)
  from k have "k - 1 < merge_statements (request_sessionId r) u d" by auto
  from merge_guest_cart_fault [OF this, of e]
  obtain err d1 where "merge_guest_cart (Some (k - 1)) e (request_sessionId r) u d = (Some err, d1)"
    by (cases "merge_guest_cart (Some (k - 1)) e (request_sessionId r) u d") auto
  with user pw t show ?thesis
    by (simp add: login_def errorHandler_def)
qed

theorem login_aborted_by_merge_error_witness:
  "merge_statements (request_sessionId alice_login) alice shop_two = 9
   \<and> fst (login check_hash (Some 7) (at_time 5 1) alice_login shop_two)
       = JsonError 500 InternalServerError
   \<and> fst (login check_hash (Some 9) (at_time 5 1) alice_login shop_two)
       = JsonError 500 InternalServerError"
proof -
  have h1: "find (\<lambda>x. user_email x = login_email alice_login) (users shop_two) = Some alice"
    by (simp add: example_defs)
  have h2: "check_hash (login_password alice_login) (user_passwordHash alice)"
    by (simp add: example_defs)
  have n: "merge_statements (request_sessionId alice_login) alice shop_two = 9"
    by (simp add: merge_statements_def request_sessionId_def truthy_string_def example_defs)
  have h3: "(0::nat) < 7" "(0::nat) < 9" by simp_all
  have h4: "7 \<le> merge_statements (request_sessionId alice_login) alice shop_two"
    "9 \<le> merge_statements (request_sessionId alice_login) alice shop_two"
    by (simp_all add: n)
  from login_aborted_by_merge_error [where cmp = check_hash, OF h1 h2 h3(1) h4(1)]
       login_aborted_by_merge_error [where cmp = check_hash, OF h1 h2 h3(2) h4(2)] n
  show ?thesis by simp
qed

theorem login_merge_error_counterexample:
  "find (\<lambda>x. user_email x = login_email alice_login) (users shop_two) = Some alice
   \<and> check_hash (login_password alice_login) (user_passwordHash alice)
   \<and> fst (login check_hash (Some 7) (at_time 5 1) alice_login shop_two)
       = JsonError 500 InternalServerError
   \<and> map item_quantity (cartItems (snd (login check_hash (Some 7) (at_time 5 1) alice_login shop_two)))
       = [5, 3, 1]
   \<and> map cart_id (carts (snd (login check_hash (Some 7) (at_time 5 1) alice_login shop_two)))
       = [1, 2]"
  by (simp add: login_def merge_guest_cart_def merge_into_def fails_def tick_def
        request_sessionId_def truthy_string_def cartItems_set_quantity_def cartItems_insert_def
        int4_def errorHandler_def Let_def example_defs)

section \<open>Cart identity\<close>

text \<open>
  C9. Whatever the operation (reading the cart, adding, updating or removing a line,
  clearing, logging in with or without a failing store, checking out), every cart row of
  the resulting store is a row of the store before with the same id, user id and session
  token, or is a new row, with the next id of the counter, that has exactly one of the
  two identities; hence a store whose carts all have exactly one identity stays so. The
  subject of the caller's token is assumed not to be 0.
\<close>

theorem cart_identity_kept:
  assumes "token_subject_ok req"
  shows "(\<forall>c' \<in> set (carts (snd (handle cmp e req d))).
           (\<exists>c \<in> set (carts d). cart_id c = cart_id c' \<and> cart_userId c = cart_userId c'
                                   \<and> cart_sessionId c = cart_sessionId c')
           \<or> (cart_id c' = carts_seq d \<and> one_identity c'))
    \<and> ((\<forall>c \<in> set (carts d). one_identity c) \<longrightarrow>
         (\<forall>c' \<in> set (carts (snd (handle cmp e req d))). one_identity c'))"
proof -
  have kept: "identity_kept d (snd (handle cmp e req d))"
  proof (cases req)
    case (GetCart c)
    then show ?thesis
      by (auto simp: get_cart_def Let_def identity_kept_touch identity_kept_same
            split: option.splits)
  next
    case (AddItem c p q)
    with assms have ok: "auth_user c \<noteq> Some 0" by simp
    from add_item_carts [of e c p q d] show ?thesis
      unfolding AddItem handle.simps
      using identity_kept_carts [OF getOrCreateCart_identity [OF ok, of d e]]
            identity_kept_same [of "snd (add_item e c p q d)" d]
      by auto
  next
    case (UpdateItem c i q)
    with assms have ok: "auth_user c \<noteq> Some 0" by simp
    from update_item_carts [of e c i q d] show ?thesis
      unfolding UpdateItem handle.simps
      using identity_kept_carts [OF getOrCreateCart_identity [OF ok, of d e]]
            identity_kept_same [of "snd (update_item e c i q d)" d]
      by auto
  next
    case (RemoveItem c i)
    with assms have ok: "auth_user c \<noteq> Some 0" by simp
    from remove_item_carts [of e c i d] show ?thesis
      unfolding RemoveItem handle.simps
      using identity_kept_carts [OF getOrCreateCart_identity [OF ok, of d e]]
            identity_kept_same [of "snd (remove_item e c i d)" d]
      by auto
  next
    case (ClearCart c)
    then show ?thesis
      by (auto simp: clear_cart_def carts_delete_def cartItems_delete_cart_def
            intro!: identity_kept_same split: option.splits)
  next
    case (Login f r)
    then show ?thesis by (simp add: login_identity)
  next
    case (Checkout userId a)
    then show ?thesis by (simp add: checkout_carts identity_kept_same)
  qed
  then have first: "\<forall>c' \<in> set (carts (snd (handle cmp e req d))).
           (\<exists>c \<in> set (carts d). cart_id c = cart_id c' \<and> cart_userId c = cart_userId c'
                                   \<and> cart_sessionId c = cart_sessionId c')
           \<or> (cart_id c' = carts_seq d \<and> one_identity c')"
    by (simp add: identity_kept_def)
  have "one_identity c'" if "\<forall>c \<in> set (carts d). one_identity c"
    and "c' \<in> set (carts (snd (handle cmp e req d)))" for c'
    using first that unfolding one_identity_def by metis
  with first show ?thesis by blast
qed

theorem cart_identity_kept_witness:
  "list_all one_identity
      (carts (snd (handle check_hash (at_time 5 1) (UpdateItem stranger (Some 1) 2) shop_one)))
   \<and> map cart_sessionId
      (carts (snd (handle check_hash (at_time 5 1) (UpdateItem stranger (Some 1) 2) shop_one)))
       = [None, Some ''s-9'']
   \<and> list_all one_identity
      (carts (snd (handle check_hash (at_time 5 1) (Login None bob_login) shop_two)))
   \<and> map cart_userId
      (carts (snd (handle check_hash (at_time 5 1) (Login None bob_login) shop_two)))
       = [Some 1, Some 2]"
proof -
  have h1: "token_subject_ok (UpdateItem stranger (Some 1) 2)" by (simp add: stranger_def)
  have h2: "token_subject_ok (Login None bob_login)" by simp
  have i1: "\<forall>c \<in> set (carts shop_one). one_identity c"
    by (simp add: one_identity_def example_defs)
  have i2: "\<forall>c \<in> set (carts shop_two). one_identity c"
    by (simp add: one_identity_def example_defs)
  have n1: "map cart_sessionId
      (carts (snd (handle check_hash (at_time 5 1) (UpdateItem stranger (Some 1) 2) shop_one)))
       = [None, Some ''s-9'']"
    by (simp add: update_item_def getOrCreateCart_def find_cart_def session_of_def
          getOrCreateSessionId_def truthy_number_def truthy_string_def carts_insert_def
          getExpirationDate_def int4_def Let_def example_defs)
  have n2: "map cart_userId
      (carts (snd (handle check_hash (at_time 5 1) (Login None bob_login) shop_two)))
       = [Some 1, Some 2]"
    by (simp add: login_def merge_guest_cart_def merge_into_def fails_def tick_def
          request_sessionId_def truthy_string_def cartItems_set_quantity_def cartItems_insert_def
          carts_insert_def carts_delete_def cartItems_delete_cart_def int4_def Let_def
          example_defs)
  from cart_identity_kept [OF h1, of check_hash "at_time 5 1" shop_one] i1
       cart_identity_kept [OF h2, of check_hash "at_time 5 1" shop_two] i2 n1 n2
  show ?thesis by (simp add: list_all_iff)
qed

end
